theory Spec2Isabelle
  imports Main
begin

section \<open>Errors and the error monad\<close>

text \<open>
  Every way in which \<^verbatim>\<open>autograd.cpp\<close> leaves a function without a result is a value:
  \<^item> \<open>ValueError\<close>: \<^verbatim>\<open>C10_THROW_ERROR(ValueError, msg)\<close>;
  \<^item> \<open>RuntimeError\<close>: the \<^verbatim>\<open>std::runtime_error\<close> thrown by the macro \<^verbatim>\<open>always_assert\<close>;
  \<^item> \<open>DebugAssert\<close>: a failed C \<^verbatim>\<open>assert\<close> (modelled as compiled in);
  \<^item> \<open>TorchError\<close>: an exception raised inside torch or equistore (a checked tensor
    index out of range, an \<^verbatim>\<open>IValue\<close> of the wrong kind, a gradient that a block lacks);
  \<^item> \<open>OutOfBounds\<close>: an unchecked read or write outside of a buffer (raw pointer or
    \<^verbatim>\<open>std::vector::operator[]\<close>), which is undefined behaviour in C++.
\<close>

datatype error =
    ValueError string
  | RuntimeError string
  | DebugAssert string
  | TorchError string
  | OutOfBounds

definition bindE :: "error + 'a \<Rightarrow> ('a \<Rightarrow> error + 'b) \<Rightarrow> error + 'b" where
  "bindE x f = (case x of Inl e \<Rightarrow> Inl e | Inr a \<Rightarrow> f a)"

text \<open>A \<^verbatim>\<open>for\<close> loop over a sequence whose body may throw: the first error ends the loop.\<close>

fun foldM :: "('x \<Rightarrow> 's \<Rightarrow> error + 's) \<Rightarrow> 'x list \<Rightarrow> 's \<Rightarrow> error + 's" where
  "foldM f [] s = Inr s"
| "foldM f (x # xs) s = (case f x s of Inl e \<Rightarrow> Inl e | Inr s' \<Rightarrow> foldM f xs s')"

fun mapM :: "('x \<Rightarrow> error + 'y) \<Rightarrow> 'x list \<Rightarrow> error + 'y list" where
  "mapM f [] = Inr []"
| "mapM f (x # xs) =
     (case f x of Inl e \<Rightarrow> Inl e
      | Inr y \<Rightarrow> (case mapM f xs of Inl e \<Rightarrow> Inl e | Inr ys \<Rightarrow> Inr (y # ys)))"

text \<open>The macro \<^verbatim>\<open>always_assert(condition)\<close>; the text is the stringified condition.\<close>

definition always_assert :: "bool \<Rightarrow> string \<Rightarrow> error + unit" where
  "always_assert condition text =
     (if condition then Inr () else Inl (RuntimeError (''assert failed: '' @ text)))"

text \<open>
  Signed machine integers are integers here. The sum of the atom counts, which the source
  accumulates in \<^verbatim>\<open>int64_t\<close> (lines 97 to 100), and the product \<^verbatim>\<open>structure_i * 3\<close> of an
  \<^verbatim>\<open>int32_t\<close> with an \<^verbatim>\<open>int\<close>, which is a 32-bit product (line 344), are written with
  their wrap-around in two's complement.
\<close>

definition wrap_int64 :: "int \<Rightarrow> int" where
  "wrap_int64 x = (x + 2 ^ 63) mod 2 ^ 64 - 2 ^ 63"

definition wrap_int32 :: "int \<Rightarrow> int" where
  "wrap_int32 x = (x + 2 ^ 31) mod 2 ^ 32 - 2 ^ 31"

text \<open>An unchecked access \<^verbatim>\<open>ptr[i]\<close>: outside of the buffer it is undefined behaviour.\<close>

definition read :: "'b list \<Rightarrow> int \<Rightarrow> error + 'b" where
  "read xs i = (if 0 \<le> i \<and> i < int (length xs) then Inr (xs ! nat i) else Inl OutOfBounds)"

text \<open>\<^verbatim>\<open>ptr[k] += v\<close> on a raw pointer.\<close>

definition add_at :: "'a::plus list \<Rightarrow> int \<Rightarrow> 'a \<Rightarrow> error + 'a list" where
  "add_at grad k v =
     (if 0 \<le> k \<and> k < int (length grad) then Inr (grad[nat k := grad ! nat k + v])
      else Inl OutOfBounds)"

section \<open>Data model\<close>

text \<open>
  A tensor of scalars \<open>'a\<close> (the source uses \<^verbatim>\<open>double\<close>; nothing below assumes a law
  of arithmetic, so the scalar type is any type with \<open>0\<close>, \<open>+\<close> and \<open>*\<close>): its sizes, its
  elements in row-major order, and the flags the source tests.
\<close>

record 'a tensor =
  sizes :: "nat list"
  data :: "'a list"
  requires_grad :: bool
  is_cpu :: bool
  is_contiguous :: bool

text \<open>\<^verbatim>\<open>Labels\<close>: named columns, \<open>count\<close> rows, and the \<^verbatim>\<open>int32\<close> entries row by row.\<close>

record labels =
  names :: "string list"
  count :: nat
  label_values :: "int list"

text \<open>
  \<^verbatim>\<open>TensorBlockHolder\<close>: values, samples, components, properties and the named gradient
  sub-blocks.
\<close>

datatype 'a block =
  Block (blk_values: "'a tensor") (blk_samples: labels) (blk_components: "labels list")
        (blk_properties: labels) (blk_gradients: "(string \<times> 'a block) list")

text \<open>\<^verbatim>\<open>TensorMapHolder\<close>: the keys and one block per key.\<close>

record 'a tensor_map =
  keys :: labels
  blocks :: "'a block list"

record system =
  sys_use_native_system :: bool
  sys_size :: nat

text \<open>\<^verbatim>\<open>rascaline::CalculationOptions\<close>, as far as \<^verbatim>\<open>forward\<close> sets it.\<close>

record calculation_options =
  gradients :: "string list"
  use_native_system :: bool

section \<open>Helpers of \<^verbatim>\<open>autograd.cpp\<close>\<close>

text \<open>
  \<^verbatim>\<open>all_systems_use_native\<close>: \<^verbatim>\<open>systems[0]\<close> is read before the loop, without a check.
\<close>

fun all_systems_use_native_loop :: "bool \<Rightarrow> system list \<Rightarrow> error + bool" where
  "all_systems_use_native_loop result [] = Inr result"
| "all_systems_use_native_loop result (system # systems) =
     (if sys_use_native_system system \<noteq> result
      then Inl (ValueError
        ''either all or none of the systems should have pre-defined neighbor lists'')
      else all_systems_use_native_loop result systems)"

definition all_systems_use_native :: "system list \<Rightarrow> error + bool" where
  "all_systems_use_native systems =
     bindE (read systems 0)
       (\<lambda>first. all_systems_use_native_loop (sys_use_native_system first) systems)"

definition contains :: "string list \<Rightarrow> string \<Rightarrow> bool" where
  "contains haystack needle = (find (\<lambda>s. s = needle) haystack \<noteq> None)"

section \<open>The differentiation context\<close>

text \<open>
  \<^verbatim>\<open>ctx->saved_data\<close> maps a name to an \<^verbatim>\<open>IValue\<close>; it is kept as the list of its
  entries, each name at most once, and read with \<open>map_of\<close>. An \<^verbatim>\<open>IValue\<close> can hold any
  custom class, so a whole \<^verbatim>\<open>TensorMap\<close> is a possible content too.
\<close>

datatype 'a ivalue =
    IntVector "int list"
  | BlockList "'a block list"
  | LabelsList "labels list"
  | TensorMapValue "'a tensor_map"

record 'a autograd_context =
  saved_variables :: "'a tensor list"
  saved_data :: "(string \<times> 'a ivalue) list"

text \<open>
  \<^verbatim>\<open>saved_data[name].toIntVector()\<close> and \<^verbatim>\<open>saved_data[name].toListRef()\<close> followed by
  \<^verbatim>\<open>toCustomClass\<close> on each element: a missing name gives the empty \<^verbatim>\<open>IValue\<close>, and an
  \<^verbatim>\<open>IValue\<close> of another kind makes torch throw.
\<close>

definition toIntVector :: "'a ivalue option \<Rightarrow> error + int list" where
  "toIntVector v =
     (case v of Some (IntVector xs) \<Rightarrow> Inr xs | _ \<Rightarrow> Inl (TorchError ''expected an int list''))"

definition toBlockList :: "'a ivalue option \<Rightarrow> error + 'a block list" where
  "toBlockList v =
     (case v of Some (BlockList bs) \<Rightarrow> Inr bs
      | _ \<Rightarrow> Inl (TorchError ''expected a list of TensorBlock''))"

definition toLabelsList :: "'a ivalue option \<Rightarrow> error + labels list" where
  "toLabelsList v =
     (case v of Some (LabelsList ls) \<Rightarrow> Inr ls
      | _ \<Rightarrow> Inl (TorchError ''expected a list of Labels''))"

section \<open>\<^verbatim>\<open>RascalineAutograd::backward\<close>\<close>

text \<open>\<^verbatim>\<open>torch::zeros_like\<close>: same sizes, device and layout, every element zero.\<close>

definition zeros_like :: "'a::zero tensor \<Rightarrow> 'a tensor" where
  "zeros_like t = t\<lparr>data := replicate (length (data t)) 0, requires_grad := False\<rparr>"

text \<open>\<^verbatim>\<open>Tensor::contiguous\<close>: the same elements, laid out row-major.\<close>

definition contiguous :: "'a tensor \<Rightarrow> 'a tensor" where
  "contiguous t = t\<lparr>is_contiguous := True\<rparr>"

text \<open>The C macro \<^verbatim>\<open>assert\<close>.\<close>

definition debug_assert :: "bool \<Rightarrow> string \<Rightarrow> error + unit" where
  "debug_assert condition text = (if condition then Inr () else Inl (DebugAssert text))"

text \<open>
  The product of the sizes of \<^verbatim>\<open>grad_output\<close> after the first:
  \<^verbatim>\<open>for (int i=1; i<grad_output_sizes.size(); i++) dot_dimensions *= grad_output_sizes[i]\<close>.
\<close>

definition dot_dimensions_of :: "'a tensor \<Rightarrow> nat" where
  "dot_dimensions_of grad_output = fold (\<lambda>s d. d * s) (drop 1 (sizes grad_output)) 1"

text \<open>
  The innermost loop of both paths, with \<open>forward_start = id * dot_dimensions\<close> and
  \<open>grad_start = sample_i * dot_dimensions\<close>:
  \<^verbatim>\<open>auto dA = 0.0;
  for (int64_t i=0; i<dot_dimensions; i++) {
      auto dX = forward_grad_ptr[forward_start + i];
      auto dA_dX = grad_values_ptr[grad_start + i];
      dA += dX * dA_dX;
  }\<close>
\<close>

definition dot_loop ::
  "'a::{zero,plus,times} list \<Rightarrow> 'a list \<Rightarrow> int \<Rightarrow> int \<Rightarrow> nat \<Rightarrow> error + 'a" where
  "dot_loop forward_grad grad_values forward_start grad_start dot_dimensions =
     foldM (\<lambda>i dA.
        bindE (read forward_grad (forward_start + int i)) (\<lambda>dX.
        bindE (read grad_values (grad_start + int i)) (\<lambda>dA_dX.
        Inr (dA + dX * dA_dX))))
       [0..<dot_dimensions] 0"

subsection \<open>Gradient with respect to the positions\<close>

text \<open>The body of the loop over \<^verbatim>\<open>grad_sample_i\<close> (lines 252 to 266).\<close>

definition positions_row ::
  "int list \<Rightarrow> int list \<Rightarrow> 'a::{zero,plus,times} list \<Rightarrow> 'a list \<Rightarrow> nat \<Rightarrow> nat \<Rightarrow> 'a list
     \<Rightarrow> error + 'a list" where
  "positions_row structures_start samples_values forward_grad grad_values dot_dimensions
       grad_sample_i positions_grad =
     bindE (read samples_values (int grad_sample_i * 3 + 0)) (\<lambda>sample_i.
     bindE (read samples_values (int grad_sample_i * 3 + 1)) (\<lambda>structure_i.
     bindE (read samples_values (int grad_sample_i * 3 + 2)) (\<lambda>atom_i.
     bindE (read structures_start structure_i) (\<lambda>start.
     let global_atom_i = start + atom_i in
     foldM (\<lambda>direction grad.
        bindE (dot_loop forward_grad grad_values
                 ((int grad_sample_i * 3 + int direction) * int dot_dimensions)
                 (sample_i * int dot_dimensions) dot_dimensions) (\<lambda>dA_dr.
        add_at grad (global_atom_i * 3 + int direction) dA_dr))
       [0..<3] positions_grad))))"

text \<open>The body of the loop over \<^verbatim>\<open>block_i\<close> (lines 221 to 267).\<close>

definition positions_block ::
  "int list \<Rightarrow> 'a::{zero,plus,times} block \<Rightarrow> 'a tensor \<Rightarrow> 'a list \<Rightarrow> error + 'a list" where
  \<open>positions_block structures_start gradient grad_output positions_grad =
     (let samples = blk_samples gradient in
      bindE (always_assert (length (names samples) = 3) ''samples->names().size() == 3'') (\<lambda>_.
      bindE (always_assert (names samples ! 0 = ''sample'')
               ''samples->names()[0] == "sample"'') (\<lambda>_.
      bindE (always_assert (names samples ! 1 = ''structure'')
               ''samples->names()[1] == "structure"'') (\<lambda>_.
      bindE (always_assert (names samples ! 2 = ''atom'')
               ''samples->names()[2] == "atom"'') (\<lambda>_.
      let forward_values = blk_values gradient in
      bindE (always_assert (is_contiguous forward_values \<and> is_cpu forward_values)
               ''forward_values.is_contiguous() && forward_values.is_cpu()'') (\<lambda>_.
      bindE (always_assert (is_contiguous grad_output \<and> is_cpu grad_output)
               ''grad_output.is_contiguous() && grad_output.is_cpu()'') (\<lambda>_.
      let dot_dimensions = dot_dimensions_of grad_output in
      foldM (positions_row structures_start (label_values samples) (data forward_values)
               (data grad_output) dot_dimensions)
        [0..<count samples] positions_grad)))))))\<close>

text \<open>The loop over \<^verbatim>\<open>block_i\<close> (line 220), for the block indices \<open>block_ids\<close>.\<close>

definition positions_blocks ::
  "int list \<Rightarrow> 'a::{zero,plus,times} block list \<Rightarrow> 'a tensor list \<Rightarrow> nat list \<Rightarrow> 'a list
     \<Rightarrow> error + 'a list" where
  "positions_blocks structures_start positions_gradients grad_outputs block_ids
       positions_grad =
     foldM (\<lambda>block_i.
        positions_block structures_start (positions_gradients ! block_i)
          (grad_outputs ! block_i))
       block_ids positions_grad"

text \<open>Lines 212 to 269, entered when \<^verbatim>\<open>all_positions.requires_grad()\<close>.\<close>

definition positions_gradient ::
  "'a::{zero,plus,times} autograd_context \<Rightarrow> 'a tensor \<Rightarrow> int list \<Rightarrow> 'a tensor list
     \<Rightarrow> error + 'a tensor option" where
  \<open>positions_gradient ctx all_positions structures_start grad_outputs =
     (let n_blocks = length grad_outputs in
      bindE (toBlockList (map_of (saved_data ctx) ''positions_gradients'')) (\<lambda>positions_gradients.
      bindE (always_assert (length positions_gradients = n_blocks)
               ''positions_gradients.size() == n_blocks'') (\<lambda>_.
      let positions_grad = zeros_like all_positions in
      bindE (debug_assert (is_contiguous positions_grad \<and> is_cpu positions_grad)
               ''positions_grad.is_contiguous() && positions_grad.is_cpu()'') (\<lambda>_.
      bindE (positions_blocks structures_start positions_gradients grad_outputs
               [0..<n_blocks] (data positions_grad)) (\<lambda>values.
      Inr (Some (positions_grad\<lparr>data := values\<rparr>)))))))\<close>

subsection \<open>Gradient with respect to the cell\<close>

text \<open>
  \<^verbatim>\<open>structures[sample_i].item<int32_t>()\<close> where \<^verbatim>\<open>structures\<close> is the view
  \<^verbatim>\<open>block_samples->values().index({Slice(), structure_dimension})\<close>: torch checks the
  index against the number of rows, counts a negative index from the end, and reads the
  entry of that row in the column \<open>structure_dimension\<close>.
\<close>

definition structure_of :: "labels \<Rightarrow> nat \<Rightarrow> int \<Rightarrow> error + int" where
  "structure_of block_samples structure_dimension sample_i =
     (let n = int (count block_samples) in
      if sample_i < - n \<or> n \<le> sample_i then Inl (TorchError ''index out of range'')
      else read (label_values block_samples)
             ((if sample_i < 0 then sample_i + n else sample_i)
                * int (length (names block_samples)) + int structure_dimension))"

text \<open>The body of the loop over \<^verbatim>\<open>grad_sample_i\<close> (lines 331 to 346).\<close>

definition cell_row ::
  "labels \<Rightarrow> nat \<Rightarrow> int list \<Rightarrow> 'a::{zero,plus,times} list \<Rightarrow> 'a list \<Rightarrow> nat \<Rightarrow> nat \<Rightarrow> 'a list
     \<Rightarrow> error + 'a list" where
  "cell_row block_samples structure_dimension samples_values forward_grad grad_values
       dot_dimensions grad_sample_i cell_grad =
     bindE (read samples_values (int grad_sample_i)) (\<lambda>sample_i.
     bindE (structure_of block_samples structure_dimension sample_i) (\<lambda>structure_i.
     foldM (\<lambda>direction_1.
        foldM (\<lambda>direction_2 grad.
           let id = (int grad_sample_i * 3 + int direction_2) * 3 + int direction_1 in
           bindE (dot_loop forward_grad grad_values (id * int dot_dimensions)
                    (sample_i * int dot_dimensions) dot_dimensions) (\<lambda>dA_dH.
           add_at grad ((wrap_int32 (structure_i * 3) + int direction_1) * 3
                          + int direction_2) dA_dH))
          [0..<3])
       [0..<3] cell_grad))"

text \<open>The body of the loop over \<^verbatim>\<open>block_i\<close> (lines 298 to 347).\<close>

definition cell_block ::
  "string list \<Rightarrow> nat \<Rightarrow> 'a::{zero,plus,times} block \<Rightarrow> labels \<Rightarrow> 'a tensor \<Rightarrow> 'a list
     \<Rightarrow> error + 'a list" where
  \<open>cell_block first_sample_names structure_dimension gradient block_samples grad_output
       cell_grad =
     bindE (always_assert (first_sample_names = names block_samples)
              ''first_sample_names == block_samples->names()'') (\<lambda>_.
     let samples = blk_samples gradient in
     bindE (always_assert (length (names samples) = 1) ''samples->names().size() == 1'') (\<lambda>_.
     bindE (always_assert (names samples ! 0 = ''sample'')
              ''samples->names()[0] == "sample"'') (\<lambda>_.
     let forward_values = blk_values gradient in
     bindE (always_assert (is_contiguous forward_values \<and> is_cpu forward_values)
              ''forward_values.is_contiguous() && forward_values.is_cpu()'') (\<lambda>_.
     bindE (always_assert (is_contiguous grad_output \<and> is_cpu grad_output)
              ''grad_output.is_contiguous() && grad_output.is_cpu()'') (\<lambda>_.
     let dot_dimensions = dot_dimensions_of grad_output in
     foldM (cell_row block_samples structure_dimension (label_values samples)
              (data forward_values) (data grad_output) dot_dimensions)
       [0..<count samples] cell_grad)))))\<close>

text \<open>The loop over \<^verbatim>\<open>block_i\<close> (line 297), for the block indices \<open>block_ids\<close>.\<close>

definition cell_blocks ::
  "string list \<Rightarrow> nat \<Rightarrow> 'a::{zero,plus,times} block list \<Rightarrow> labels list \<Rightarrow> 'a tensor list
     \<Rightarrow> nat list \<Rightarrow> 'a list \<Rightarrow> error + 'a list" where
  "cell_blocks first_sample_names structure_dimension cell_gradients all_samples
       grad_outputs block_ids cell_grad =
     foldM (\<lambda>block_i.
        cell_block first_sample_names structure_dimension (cell_gradients ! block_i)
          (all_samples ! block_i) (grad_outputs ! block_i))
       block_ids cell_grad"

text \<open>
  \<^verbatim>\<open>std::find\<close> of \<^verbatim>\<open>"structure"\<close> in the names of the first samples, and the
  \<^verbatim>\<open>std::distance\<close> to it.
\<close>

fun find_index :: "string \<Rightarrow> string list \<Rightarrow> nat option" where
  "find_index needle [] = None"
| "find_index needle (name # rest) =
     (if name = needle then Some 0 else map_option Suc (find_index needle rest))"

text \<open>
  The message \<^verbatim>\<open>could not find 'structure' in the samples, this calculator is missing it\<close>.
\<close>

definition missing_structure_message :: string where
  "missing_structure_message =
     ''could not find '' @ [CHR 0x27] @ ''structure'' @ [CHR 0x27] @
     '' in the samples, this calculator is missing it''"

text \<open>Lines 272 to 349, entered when \<^verbatim>\<open>all_cells.requires_grad()\<close>.\<close>

definition cell_gradient ::
  "'a::{zero,plus,times} autograd_context \<Rightarrow> 'a tensor \<Rightarrow> 'a tensor list
     \<Rightarrow> error + 'a tensor option" where
  \<open>cell_gradient ctx all_cells grad_outputs =
     (let n_blocks = length grad_outputs in
      bindE (toBlockList (map_of (saved_data ctx) ''cell_gradients'')) (\<lambda>cell_gradients.
      bindE (always_assert (length cell_gradients = n_blocks)
               ''cell_gradients.size() == n_blocks'') (\<lambda>_.
      bindE (toLabelsList (map_of (saved_data ctx) ''samples'')) (\<lambda>all_samples.
      bindE (always_assert (length all_samples = n_blocks)
               ''all_samples.size() == n_blocks'') (\<lambda>_.
      let cell_grad = zeros_like all_cells in
      bindE (always_assert (is_contiguous cell_grad \<and> is_cpu cell_grad)
               ''cell_grad.is_contiguous() && cell_grad.is_cpu()'') (\<lambda>_.
      let first_sample_names = names (all_samples ! 0) in
      (case find_index ''structure'' first_sample_names of
         None \<Rightarrow> Inl (ValueError missing_structure_message)
       | Some structure_dimension \<Rightarrow>
           bindE (cell_blocks first_sample_names structure_dimension cell_gradients
                    all_samples grad_outputs [0..<n_blocks] (data cell_grad)) (\<lambda>values.
           Inr (Some (cell_grad\<lparr>data := values\<rparr>))))))))))\<close>

subsection \<open>The backward operation\<close>

text \<open>
  The result lists, in this order, the gradient with respect to \<^verbatim>\<open>all_positions\<close>, the one
  with respect to \<^verbatim>\<open>all_cells\<close>, and one entry for each of the other four arguments of
  \<^verbatim>\<open>forward\<close>; \<open>None\<close> is the undefined \<^verbatim>\<open>torch::Tensor()\<close>.
\<close>

definition backward ::
  "'a::{zero,plus,times} autograd_context \<Rightarrow> 'a tensor list \<Rightarrow> error + 'a tensor option list"
  where
  "backward ctx grad_outputs0 =
     bindE (read (saved_variables ctx) 0) (\<lambda>all_positions.
     bindE (read (saved_variables ctx) 1) (\<lambda>all_cells.
     bindE (toIntVector (map_of (saved_data ctx) ''structures_start'')) (\<lambda>structures_start.
     let n_blocks = length grad_outputs0;
         grad_outputs = map contiguous grad_outputs0
     in
     if n_blocks = 0 then Inr [None, None, None, None, None, None]
     else
       bindE (if requires_grad all_positions
              then positions_gradient ctx all_positions structures_start grad_outputs
              else Inr None) (\<lambda>positions_grad.
       bindE (if requires_grad all_cells
              then cell_gradient ctx all_cells grad_outputs
              else Inr None) (\<lambda>cell_grad.
       Inr [positions_grad, cell_grad, None, None, None, None])))))"

section \<open>\<^verbatim>\<open>RascalineAutograd::forward\<close>\<close>

subsection \<open>The interfaces \<^verbatim>\<open>forward\<close> consumes\<close>

text \<open>
  Modelled from the spec: the method \<^verbatim>\<open>CalculatorHolder::compute_impl\<close>, which is not in
  \<^verbatim>\<open>autograd.cpp\<close>. It receives the structures and the options and returns the
  block-structured output, or throws. The invocations are recorded in a log, which
  \<^verbatim>\<open>forward\<close> threads through.
\<close>

type_synonym 'a calculator = "system list \<Rightarrow> calculation_options \<Rightarrow> error + 'a tensor_map"

type_synonym calculator_log = "(system list \<times> calculation_options) list"

text \<open>
  Modelled from the spec: \<^verbatim>\<open>TensorMapHolder::block_by_id\<close>, \<^verbatim>\<open>TensorBlockHolder::gradient\<close>
  and \<^verbatim>\<open>TensorBlockHolder::add_gradient\<close> of equistore, which are not in
  \<^verbatim>\<open>autograd.cpp\<close>: block lookup by index, access to a named gradient sub-block (or its
  absence, an error), and attaching a named gradient sub-block to a block (a name that
  the block already has is an error).
\<close>

definition block_by_id :: "'a tensor_map \<Rightarrow> nat \<Rightarrow> error + 'a block" where
  "block_by_id tensor i =
     (if i < length (blocks tensor) then Inr (blocks tensor ! i)
      else Inl (TorchError ''block index out of bounds''))"

definition block_gradient :: "'a block \<Rightarrow> string \<Rightarrow> error + 'a block" where
  "block_gradient block parameter =
     (case map_of (blk_gradients block) parameter of
        None \<Rightarrow> Inl (TorchError (''can not find gradients with respect to '' @ parameter))
      | Some g \<Rightarrow> Inr g)"

definition add_gradient :: "'a block \<Rightarrow> string \<Rightarrow> 'a block \<Rightarrow> error + 'a block" where
  "add_gradient block parameter g =
     (if map_of (blk_gradients block) parameter \<noteq> None
      then Inl (TorchError (''gradient already exists: '' @ parameter))
      else Inr (Block (blk_values block) (blk_samples block) (blk_components block)
                  (blk_properties block) (blk_gradients block @ [(parameter, g)])))"

text \<open>\<^verbatim>\<open>ctx->saved_data.emplace(name, value)\<close>: a name already present keeps its value.\<close>

definition emplace ::
  "string \<Rightarrow> 'a ivalue \<Rightarrow> 'a autograd_context \<Rightarrow> 'a autograd_context" where
  "emplace name v ctx =
     (if map_of (saved_data ctx) name = None
      then ctx\<lparr>saved_data := saved_data ctx @ [(name, v)]\<rparr>
      else ctx)"

subsection \<open>\<^verbatim>\<open>extract_gradient_blocks\<close>\<close>

definition extract_gradient_blocks :: "'a tensor_map \<Rightarrow> string \<Rightarrow> error + 'a block list" where
  "extract_gradient_blocks tensor parameter =
     mapM (\<lambda>i.
        bindE (block_by_id tensor i) (\<lambda>block.
        bindE (block_gradient block parameter) (\<lambda>g.
        Inr (Block (blk_values g) (blk_samples g) (blk_components g) (blk_properties g) []))))
       [0..<count (keys tensor)]"

subsection \<open>The options of the calculation (lines 64 to 91)\<close>

fun check_forward_gradients :: "string list \<Rightarrow> error + unit" where
  "check_forward_gradients [] = Inr ()"
| "check_forward_gradients (parameter # rest) =
     (if parameter \<noteq> ''positions'' \<and> parameter \<noteq> ''cell''
      then Inl (ValueError (''invalid parameter in forward gradients: '' @ parameter))
      else check_forward_gradients rest)"

definition computed_gradients :: "string list \<Rightarrow> 'a tensor \<Rightarrow> 'a tensor \<Rightarrow> string list" where
  "computed_gradients forward_gradients all_positions all_cells =
     (if contains forward_gradients ''positions'' \<or> requires_grad all_positions
      then [''positions''] else []) @
     (if contains forward_gradients ''cell'' \<or> requires_grad all_cells
      then [''cell''] else [])"

fun all_forward_gradients_loop :: "string list \<Rightarrow> string list \<Rightarrow> bool \<Rightarrow> bool" where
  "all_forward_gradients_loop forward_gradients [] all_forward_gradients =
     all_forward_gradients"
| "all_forward_gradients_loop forward_gradients (parameter # rest) all_forward_gradients =
     all_forward_gradients_loop forward_gradients rest
       (if \<not> contains forward_gradients parameter then False else all_forward_gradients)"

definition forward_options ::
  "'a tensor \<Rightarrow> 'a tensor \<Rightarrow> system list \<Rightarrow> string list
     \<Rightarrow> error + calculation_options \<times> bool" where
  "forward_options all_positions all_cells systems forward_gradients =
     bindE (check_forward_gradients forward_gradients) (\<lambda>_.
     let computed = computed_gradients forward_gradients all_positions all_cells;
         all_forward_gradients = all_forward_gradients_loop forward_gradients computed True
     in
     bindE (all_systems_use_native systems) (\<lambda>native.
     Inr (\<lparr>gradients = computed, use_native_system = native\<rparr>, all_forward_gradients)))"

subsection \<open>The start of each structure (lines 96 to 101)\<close>

fun structures_start_loop :: "system list \<Rightarrow> int \<Rightarrow> int list \<Rightarrow> int list" where
  "structures_start_loop [] current_start structures_start = structures_start"
| "structures_start_loop (system # systems) current_start structures_start =
     structures_start_loop systems (wrap_int64 (current_start + int (sys_size system)))
       (structures_start @ [current_start])"

definition structures_start_of :: "system list \<Rightarrow> int list" where
  "structures_start_of systems = structures_start_loop systems 0 []"

subsection \<open>What is saved for the backward pass (lines 114 to 147)\<close>

definition save_for_backward ::
  "'a autograd_context \<Rightarrow> 'a tensor \<Rightarrow> 'a tensor \<Rightarrow> int list \<Rightarrow> 'a tensor_map
     \<Rightarrow> error + 'a autograd_context" where
  "save_for_backward ctx all_positions all_cells structures_start descriptor =
     (let ctx = ctx\<lparr>saved_variables := [all_positions, all_cells]\<rparr>;
          ctx = emplace ''structures_start'' (IntVector structures_start) ctx
      in
      bindE (if requires_grad all_positions
             then bindE (extract_gradient_blocks descriptor ''positions'') (\<lambda>extracted.
                  Inr (emplace ''positions_gradients'' (BlockList extracted) ctx))
             else Inr ctx) (\<lambda>ctx.
      if requires_grad all_cells
      then bindE (extract_gradient_blocks descriptor ''cell'') (\<lambda>extracted.
           let ctx = emplace ''cell_gradients'' (BlockList extracted) ctx in
           bindE (mapM (\<lambda>i. bindE (block_by_id descriptor i) (\<lambda>block.
                    Inr (blk_samples block)))
                   [0..<count (keys descriptor)]) (\<lambda>all_samples.
           Inr (emplace ''samples'' (LabelsList all_samples) ctx)))
      else Inr ctx))"

subsection \<open>The \<^verbatim>\<open>TensorMap\<close> handed back to the caller (lines 150 to 175)\<close>

definition visible_block :: "string list \<Rightarrow> 'a block \<Rightarrow> error + 'a block" where
  "visible_block forward_gradients block =
     foldM (\<lambda>parameter new_block.
        bindE (block_gradient block parameter) (\<lambda>g. add_gradient new_block parameter g))
       forward_gradients
       (Block (blk_values block) (blk_samples block) (blk_components block)
          (blk_properties block) [])"

definition visible_tensor_map ::
  "bool \<Rightarrow> string list \<Rightarrow> 'a tensor_map \<Rightarrow> error + 'a tensor_map" where
  "visible_tensor_map all_forward_gradients forward_gradients descriptor =
     (if all_forward_gradients then Inr descriptor
      else
        bindE (mapM (\<lambda>i. bindE (block_by_id descriptor i) (visible_block forward_gradients))
                [0..<count (keys descriptor)]) (\<lambda>new_blocks.
        Inr \<lparr>keys = keys descriptor, blocks = new_blocks\<rparr>))"

subsection \<open>The forward operation\<close>

text \<open>
  What a call of \<^verbatim>\<open>forward\<close> that returns leaves behind: the returned tensors, the
  context, and the \<^verbatim>\<open>TensorMap\<close> written through the pointer \<^verbatim>\<open>tensor_map\<close>.
\<close>

record 'a forward_result =
  values_by_block :: "'a tensor list"
  ctx_out :: "'a autograd_context"
  tensor_map_out :: "'a tensor_map"

text \<open>Lines 105 to 177: everything after the calculator has returned \<open>descriptor\<close>.\<close>

definition forward_finish ::
  "'a autograd_context \<Rightarrow> 'a tensor \<Rightarrow> 'a tensor \<Rightarrow> string list \<Rightarrow> bool \<Rightarrow> int list
     \<Rightarrow> 'a tensor_map \<Rightarrow> error + 'a forward_result" where
  "forward_finish ctx all_positions all_cells forward_gradients all_forward_gradients
       structures_start descriptor =
     bindE (mapM (\<lambda>i. bindE (block_by_id descriptor i) (\<lambda>block. Inr (blk_values block)))
             [0..<count (keys descriptor)]) (\<lambda>values.
     bindE (save_for_backward ctx all_positions all_cells structures_start descriptor) (\<lambda>ctx.
     bindE (visible_tensor_map all_forward_gradients forward_gradients descriptor) (\<lambda>tensor_map.
     Inr \<lparr>values_by_block = values, ctx_out = ctx, tensor_map_out = tensor_map\<rparr>)))"

text \<open>
  The whole of \<^verbatim>\<open>forward\<close>. The second component is the log of the calculator's
  invocations after the call.
\<close>

definition forward ::
  "'a calculator \<Rightarrow> 'a autograd_context \<Rightarrow> 'a tensor \<Rightarrow> 'a tensor \<Rightarrow> system list \<Rightarrow> string list
     \<Rightarrow> calculator_log \<Rightarrow> (error + 'a forward_result) \<times> calculator_log" where
  "forward calculator ctx all_positions all_cells systems forward_gradients log =
     (case forward_options all_positions all_cells systems forward_gradients of
        Inl e \<Rightarrow> (Inl e, log)
      | Inr (calculation_options, all_forward_gradients) \<Rightarrow>
          let structures_start = structures_start_of systems in
          (bindE (calculator systems calculation_options)
             (forward_finish ctx all_positions all_cells forward_gradients
                all_forward_gradients structures_start),
           log @ [(systems, calculation_options)]))"

section \<open>The gradients in the words of the specification\<close>


text \<open>
  The size of the flattened component-times-property axis of a tensor whose first axis
  counts the samples.
\<close>

definition flattened_size :: "'a tensor \<Rightarrow> nat" where
  "flattened_size t = prod_list (drop 1 (sizes t))"












section \<open>Standalone copies of gradient sub-blocks\<close>

text \<open>
  In the words of the specification, the context holds a standalone copy of every block's
  gradient sub-block for a parameter: the values, the samples and the index metadata
  (components and properties) of the sub-block, and nothing else.
\<close>

definition standalone_copy :: "'a block \<Rightarrow> 'a block \<Rightarrow> bool" where
  "standalone_copy sub_block copy \<longleftrightarrow>
     copy = Block (blk_values sub_block) (blk_samples sub_block) (blk_components sub_block)
              (blk_properties sub_block) []"

definition standalone_copies :: "'a tensor_map \<Rightarrow> string \<Rightarrow> 'a block list \<Rightarrow> bool" where
  "standalone_copies descriptor parameter extracted \<longleftrightarrow>
     length extracted = count (keys descriptor) \<and>
     (\<forall>i < count (keys descriptor).
        i < length (blocks descriptor) \<and>
        (case map_of (blk_gradients (blocks descriptor ! i)) parameter of
           None \<Rightarrow> False
         | Some sub_block \<Rightarrow> standalone_copy sub_block (extracted ! i)))"

section \<open>A worked example\<close>

text \<open>
  One structure of two atoms and a calculator that returns one block with two samples, a
  positions-gradient sub-block of three rows (two of them for atom 1) and a cell-gradient
  sub-block of two rows. The scalars are integers.
\<close>

definition example_systems :: "system list" where
  "example_systems = [\<lparr>sys_use_native_system = True, sys_size = 2\<rparr>]"

definition example_positions :: "int tensor" where
  "example_positions =
     \<lparr>sizes = [2, 3], data = [0, 0, 0, 0, 0, 0], requires_grad = True, is_cpu = True,
      is_contiguous = True\<rparr>"

definition example_cells :: "int tensor" where
  "example_cells =
     \<lparr>sizes = [1, 3, 3], data = [1, 0, 0, 0, 1, 0, 0, 0, 1], requires_grad = True,
      is_cpu = True, is_contiguous = True\<rparr>"

text \<open>A contiguous tensor on the CPU that does not require gradients.\<close>

definition plain :: "nat list \<Rightarrow> int list \<Rightarrow> int tensor" where
  "plain shape elements =
     \<lparr>sizes = shape, data = elements, requires_grad = False, is_cpu = True,
      is_contiguous = True\<rparr>"

definition example_samples :: labels where
  "example_samples =
     \<lparr>names = [''structure'', ''center''], count = 2, label_values = [0, 0, 0, 1]\<rparr>"

definition example_properties :: labels where
  "example_properties = \<lparr>names = [''n''], count = 1, label_values = [0]\<rparr>"

definition example_positions_gradient :: "int block" where
  "example_positions_gradient =
     Block (plain [3, 3, 1] [1, 2, 3, 4, 5, 6, 7, 8, 9])
       \<lparr>names = [''sample'', ''structure'', ''atom''], count = 3,
        label_values = [0, 0, 0, 0, 0, 1, 1, 0, 1]\<rparr>
       [] example_properties []"

definition example_cell_gradient :: "int block" where
  "example_cell_gradient =
     Block (plain [2, 3, 3, 1] [1, 2, 3, 4, 5, 6, 7, 8, 9, 1, 0, 0, 0, 1, 0, 0, 0, 1])
       \<lparr>names = [''sample''], count = 2, label_values = [0, 1]\<rparr>
       [] example_properties []"

definition example_block :: "int block" where
  "example_block =
     Block (plain [2, 1] [5, 7]) example_samples [] example_properties
       [(''positions'', example_positions_gradient), (''cell'', example_cell_gradient)]"

definition example_descriptor :: "int tensor_map" where
  "example_descriptor =
     \<lparr>keys = \<lparr>names = [''key''], count = 1, label_values = [0]\<rparr>, blocks = [example_block]\<rparr>"

definition example_calculator :: "int calculator" where
  "example_calculator systems options = Inr example_descriptor"

definition new_context :: "int autograd_context" where
  "new_context = \<lparr>saved_variables = [], saved_data = []\<rparr>"

definition example_adjoints :: "int tensor list" where
  "example_adjoints = [plain [2, 1] [10, 100]]"

text \<open>Inputs that do not require gradients.\<close>

definition detached_positions :: "int tensor" where
  "detached_positions = plain [2, 3] [0, 0, 0, 0, 0, 0]"

definition detached_cells :: "int tensor" where
  "detached_cells = plain [1, 3, 3] [1, 0, 0, 0, 1, 0, 0, 0, 1]"

text \<open>
  The context that \<^verbatim>\<open>forward\<close> leaves for the example, where both inputs require
  gradients.
\<close>

definition example_context :: "int autograd_context" where
  "example_context =
     \<lparr>saved_variables = [example_positions, example_cells],
      saved_data =
        [(''structures_start'', IntVector [0]),
         (''positions_gradients'', BlockList [example_positions_gradient]),
         (''cell_gradients'', BlockList [example_cell_gradient]),
         (''samples'', LabelsList [example_samples])]\<rparr>"

text \<open>
  Contexts that break what \<^verbatim>\<open>backward\<close> expects: a positions-gradient sub-block whose
  sample columns are in another order; samples without a \<^verbatim>\<open>structure\<close> column; and two
  blocks whose samples have different columns.
\<close>

definition misnamed_context :: "int autograd_context" where
  "misnamed_context =
     \<lparr>saved_variables = [example_positions, example_cells],
      saved_data =
        [(''structures_start'', IntVector [0]),
         (''positions_gradients'',
          BlockList [Block (plain [3, 3, 1] [1, 2, 3, 4, 5, 6, 7, 8, 9])
            \<lparr>names = [''sample'', ''atom'', ''structure''], count = 3,
             label_values = [0, 0, 0, 0, 1, 0, 1, 1, 0]\<rparr>
            [] example_properties []])]\<rparr>"

definition unstructured_context :: "int autograd_context" where
  "unstructured_context =
     \<lparr>saved_variables = [plain [2, 3] [0, 0, 0, 0, 0, 0], example_cells],
      saved_data =
        [(''structures_start'', IntVector [0]),
         (''cell_gradients'', BlockList [example_cell_gradient]),
         (''samples'',
          LabelsList [\<lparr>names = [''center''], count = 2, label_values = [0, 1]\<rparr>])]\<rparr>"

definition two_layouts_context :: "int autograd_context" where
  "two_layouts_context =
     \<lparr>saved_variables = [plain [2, 3] [0, 0, 0, 0, 0, 0], example_cells],
      saved_data =
        [(''structures_start'', IntVector [0]),
         (''cell_gradients'', BlockList [example_cell_gradient, example_cell_gradient]),
         (''samples'',
          LabelsList [example_samples,
            \<lparr>names = [''structure'', ''atom''], count = 2,
             label_values = [0, 0, 0, 1]\<rparr>])]\<rparr>"







section \<open>Basic facts\<close>

lemma bindE_Inr [simp]: "bindE (Inr a) f = f a"
  by (simp add: bindE_def)

lemma bindE_Inl [simp]: "bindE (Inl e) f = Inl e"
  by (simp add: bindE_def)

lemma bindE_eq_Inr: "bindE x f = Inr y \<longleftrightarrow> (\<exists>a. x = Inr a \<and> f a = Inr y)"
  by (cases x) simp_all

lemma contains_set: "contains haystack needle \<longleftrightarrow> needle \<in> set haystack"
  by (induction haystack) (auto simp: contains_def)

lemma all_systems_use_native_loop_Inr:
  "all_systems_use_native_loop result systems = Inr r \<longleftrightarrow>
     r = result \<and> (\<forall>s \<in> set systems. sys_use_native_system s = result)"
  by (induction systems) auto

lemma all_systems_use_native_loop_cases:
  "all_systems_use_native_loop result systems = Inr result \<or>
   all_systems_use_native_loop result systems = Inl (ValueError
     ''either all or none of the systems should have pre-defined neighbor lists'')"
  by (induction systems) auto

subsection \<open>The example, evaluated\<close>

lemma example_forward:
  "forward example_calculator new_context example_positions example_cells example_systems
     [''positions''] [] =
   (Inr \<lparr>values_by_block = [plain [2, 1] [5, 7]], ctx_out = example_context,
         tensor_map_out = \<lparr>keys = keys example_descriptor,
           blocks = [Block (plain [2, 1] [5, 7]) example_samples [] example_properties
             [(''positions'', example_positions_gradient)]]\<rparr>\<rparr>,
    [(example_systems, \<lparr>gradients = [''positions'', ''cell''], use_native_system = True\<rparr>)])"
  by code_simp

lemma example_backward:
  "backward example_context example_adjoints =
     Inr [Some (plain [2, 3] [10, 20, 30, 740, 850, 960]),
          Some (plain [1, 3, 3] [110, 40, 70, 20, 150, 80, 30, 60, 190]),
          None, None, None, None]"
  by code_simp



section \<open>The native-system check\<close>

text \<open>
  Claim C10. \<^verbatim>\<open>all_systems_use_native\<close> reads the first structure before it iterates.
  On a non-empty sequence it either returns the flag of the first structure, which then
  every structure shares, or raises the invalid-argument error about inconsistent
  pre-defined neighbor lists, which happens exactly when two structures disagree; on the
  empty sequence the read of \<^verbatim>\<open>systems[0]\<close> is out of bounds.
\<close>

theorem all_systems_use_native_first_read:
  "(systems \<noteq> [] \<longrightarrow>
      (all_systems_use_native systems = Inr (sys_use_native_system (hd systems)) \<and>
         (\<forall>s \<in> set systems. sys_use_native_system s = sys_use_native_system (hd systems)))
      \<or> (all_systems_use_native systems = Inl (ValueError
            ''either all or none of the systems should have pre-defined neighbor lists'') \<and>
         (\<exists>s \<in> set systems. sys_use_native_system s \<noteq> sys_use_native_system (hd systems))))
   \<and> (systems = [] \<longrightarrow> all_systems_use_native systems = Inl OutOfBounds)"
proof (cases systems)
  case Nil
  then show ?thesis by (simp add: all_systems_use_native_def read_def)
next
  case (Cons first rest)
  have run: "all_systems_use_native systems =
      all_systems_use_native_loop (sys_use_native_system first) systems"
    using Cons by (simp add: all_systems_use_native_def read_def)
  show ?thesis
  proof (cases "\<forall>s \<in> set systems. sys_use_native_system s = sys_use_native_system first")
    case True
    then have "all_systems_use_native_loop (sys_use_native_system first) systems =
        Inr (sys_use_native_system first)"
      by (simp add: all_systems_use_native_loop_Inr)
    with True run Cons show ?thesis by simp
  next
    case False
    then have "all_systems_use_native_loop (sys_use_native_system first) systems \<noteq>
        Inr (sys_use_native_system first)"
      by (simp add: all_systems_use_native_loop_Inr)
    with all_systems_use_native_loop_cases [of "sys_use_native_system first" systems]
    have "all_systems_use_native_loop (sys_use_native_system first) systems =
        Inl (ValueError
          ''either all or none of the systems should have pre-defined neighbor lists'')"
      by blast
    with False run Cons show ?thesis by auto
  qed
qed

theorem all_systems_use_native_first_read_witness:
  "all_systems_use_native
     [\<lparr>sys_use_native_system = True, sys_size = 2\<rparr>,
      \<lparr>sys_use_native_system = True, sys_size = 1\<rparr>] = Inr True
   \<and> all_systems_use_native
     [\<lparr>sys_use_native_system = True, sys_size = 2\<rparr>,
      \<lparr>sys_use_native_system = False, sys_size = 1\<rparr>] = Inl (ValueError
        ''either all or none of the systems should have pre-defined neighbor lists'')
   \<and> all_systems_use_native [] = Inl OutOfBounds"
  using all_systems_use_native_first_read
          [of "[\<lparr>sys_use_native_system = True, sys_size = 2\<rparr>,
                \<lparr>sys_use_native_system = True, sys_size = 1\<rparr>]"]
        all_systems_use_native_first_read
          [of "[\<lparr>sys_use_native_system = True, sys_size = 2\<rparr>,
                \<lparr>sys_use_native_system = False, sys_size = 1\<rparr>]"]
        all_systems_use_native_first_read [of "[]"]
  by simp

section \<open>Validation and options of the forward operation\<close>

lemma check_forward_gradients_find:
  "check_forward_gradients forward_gradients =
     (case find (\<lambda>p. p \<noteq> ''positions'' \<and> p \<noteq> ''cell'') forward_gradients of
        None \<Rightarrow> Inr ()
      | Some p \<Rightarrow> Inl (ValueError (''invalid parameter in forward gradients: '' @ p)))"
  by (induction forward_gradients) auto

lemma find_None_subset:
  "find (\<lambda>p. p \<noteq> ''positions'' \<and> p \<noteq> ''cell'') forward_gradients = None \<longleftrightarrow>
     set forward_gradients \<subseteq> {''positions'', ''cell''}"
  by (auto simp: find_None_iff)

lemma all_forward_gradients_loop_eq:
  "all_forward_gradients_loop forward_gradients computed b \<longleftrightarrow>
     b \<and> set computed \<subseteq> set forward_gradients"
  by (induction computed arbitrary: b) (auto simp: contains_set)

lemma set_computed_gradients:
  "set (computed_gradients forward_gradients all_positions all_cells) =
     (set forward_gradients \<inter> {''positions'', ''cell''})
     \<union> (if requires_grad all_positions then {''positions''} else {})
     \<union> (if requires_grad all_cells then {''cell''} else {})"
  by (auto simp: computed_gradients_def contains_set)

text \<open>
  Claim C3. When the list of requested forward gradients contains a name other than
  \<^verbatim>\<open>positions\<close> and \<^verbatim>\<open>cell\<close>, \<^verbatim>\<open>forward\<close> fails with the invalid-argument error that names
  such a value, and the log of the calculator's invocations is the one before the call:
  the calculator is not invoked.
\<close>

theorem forward_rejects_unknown_parameter:
  assumes "\<not> set forward_gradients \<subseteq> {''positions'', ''cell''}"
  shows "\<exists>parameter \<in> set forward_gradients.
           parameter \<noteq> ''positions'' \<and> parameter \<noteq> ''cell'' \<and>
           forward calculator ctx all_positions all_cells systems forward_gradients log =
             (Inl (ValueError (''invalid parameter in forward gradients: '' @ parameter)), log)"
proof -
  let ?unknown = "\<lambda>p. p \<noteq> ''positions'' \<and> p \<noteq> ''cell''"
  from assms obtain parameter
    where found: "find ?unknown forward_gradients = Some parameter"
    using find_None_subset [of forward_gradients]
    by (cases "find ?unknown forward_gradients") auto
  then have "parameter \<in> set forward_gradients"
    and "parameter \<noteq> ''positions'' \<and> parameter \<noteq> ''cell''"
    by (auto simp: find_Some_iff)
  moreover have "forward calculator ctx all_positions all_cells systems forward_gradients log =
      (Inl (ValueError (''invalid parameter in forward gradients: '' @ parameter)), log)"
    using found by (simp add: forward_def forward_options_def check_forward_gradients_find)
  ultimately show ?thesis by blast
qed

theorem forward_rejects_unknown_parameter_witness:
  "forward example_calculator new_context example_positions example_cells example_systems
     [''energy''] [] =
   (Inl (ValueError ''invalid parameter in forward gradients: energy''), [])"
  using forward_rejects_unknown_parameter [of "[''energy'']" example_calculator new_context
      example_positions example_cells example_systems "[]"]
  by simp

text \<open>
  Claim C4. When the requested names pass the validation and the structures agree on the
  native-system flag, \<^verbatim>\<open>forward\<close> invokes the calculator once, on the structures, and the
  derivative channels in the options it passes are exactly the requested ones together
  with the channels whose input tensor requires gradients: \<^verbatim>\<open>positions\<close> is computed iff it
  is requested or the positions tensor requires gradients, and \<^verbatim>\<open>cell\<close> likewise. In every
  other call the calculator is not invoked.
\<close>

theorem forward_computed_channels:
  assumes "forward calculator ctx all_positions all_cells systems forward_gradients log =
             (result, log')"
  shows "(set forward_gradients \<subseteq> {''positions'', ''cell''} \<and>
          (\<exists>native. all_systems_use_native systems = Inr native) \<longrightarrow>
            (\<exists>options. log' = log @ [(systems, options)] \<and>
               set (gradients options) =
                 set forward_gradients
                 \<union> (if requires_grad all_positions then {''positions''} else {})
                 \<union> (if requires_grad all_cells then {''cell''} else {}) \<and>
               (''positions'' \<in> set (gradients options) \<longleftrightarrow>
                  ''positions'' \<in> set forward_gradients \<or> requires_grad all_positions) \<and>
               (''cell'' \<in> set (gradients options) \<longleftrightarrow>
                  ''cell'' \<in> set forward_gradients \<or> requires_grad all_cells)))
       \<and> (\<not> (set forward_gradients \<subseteq> {''positions'', ''cell''} \<and>
              (\<exists>native. all_systems_use_native systems = Inr native)) \<longrightarrow> log' = log)"
proof (intro conjI impI)
  assume ok: "set forward_gradients \<subseteq> {''positions'', ''cell''} \<and>
      (\<exists>native. all_systems_use_native systems = Inr native)"
  then obtain native where native: "all_systems_use_native systems = Inr native" by blast
  from ok have checked: "check_forward_gradients forward_gradients = Inr ()"
    by (simp add: check_forward_gradients_find find_None_subset [THEN iffD2])
  let ?options = "\<lparr>gradients = computed_gradients forward_gradients all_positions all_cells,
      use_native_system = native\<rparr>"
  have "log' = log @ [(systems, ?options)]"
    using assms checked native by (simp add: forward_def forward_options_def Let_def)
  moreover have "set (gradients ?options) =
      set forward_gradients
      \<union> (if requires_grad all_positions then {''positions''} else {})
      \<union> (if requires_grad all_cells then {''cell''} else {})"
    using ok by (auto simp: set_computed_gradients)
  moreover have "''positions'' \<in> set (gradients ?options) \<longleftrightarrow>
      ''positions'' \<in> set forward_gradients \<or> requires_grad all_positions"
    by (auto simp: set_computed_gradients)
  moreover have "''cell'' \<in> set (gradients ?options) \<longleftrightarrow>
      ''cell'' \<in> set forward_gradients \<or> requires_grad all_cells"
    by (auto simp: set_computed_gradients)
  ultimately show "\<exists>options. log' = log @ [(systems, options)] \<and>
      set (gradients options) =
        set forward_gradients
        \<union> (if requires_grad all_positions then {''positions''} else {})
        \<union> (if requires_grad all_cells then {''cell''} else {}) \<and>
      (''positions'' \<in> set (gradients options) \<longleftrightarrow>
         ''positions'' \<in> set forward_gradients \<or> requires_grad all_positions) \<and>
      (''cell'' \<in> set (gradients options) \<longleftrightarrow>
         ''cell'' \<in> set forward_gradients \<or> requires_grad all_cells)"
    by blast
next
  assume "\<not> (set forward_gradients \<subseteq> {''positions'', ''cell''} \<and>
      (\<exists>native. all_systems_use_native systems = Inr native))"
  then consider "check_forward_gradients forward_gradients \<noteq> Inr ()"
    | e where "all_systems_use_native systems = Inl e"
    by (cases "all_systems_use_native systems")
       (auto simp: check_forward_gradients_find find_None_subset split: option.splits)
  then show "log' = log"
  proof cases
    case 1
    then obtain e where "check_forward_gradients forward_gradients = Inl e"
      by (cases "check_forward_gradients forward_gradients") auto
    with assms show ?thesis by (simp add: forward_def forward_options_def)
  next
    case 2
    with assms show ?thesis
      by (cases "check_forward_gradients forward_gradients")
         (simp_all add: forward_def forward_options_def Let_def)
  qed
qed

theorem forward_computed_channels_witness:
  "set [''positions''] \<subseteq> {''positions'', ''cell''}
   \<and> all_systems_use_native example_systems = Inr True
   \<and> snd (forward example_calculator new_context example_positions example_cells
            example_systems [''positions''] []) =
       [(example_systems, \<lparr>gradients = [''positions'', ''cell''], use_native_system = True\<rparr>)]"
  using forward_computed_channels [OF example_forward] example_forward
  by (simp add: example_systems_def all_systems_use_native_def read_def)

section \<open>The result of the backward operation\<close>

text \<open>
  Claim C9. A backward call with no adjoint tensor, on a context that holds the two saved
  inputs and \<^verbatim>\<open>structures_start\<close>, returns no gradient for the positions and none for the
  cell; and whatever a backward call returns consists of the positions gradient, the cell
  gradient and four empty slots, in this order.
\<close>

theorem backward_result_slots:
  "(2 \<le> length (saved_variables ctx) \<longrightarrow>
      map_of (saved_data ctx) ''structures_start'' = Some (IntVector structures_start) \<longrightarrow>
      backward ctx [] = Inr [None, None, None, None, None, None])
   \<and> (backward ctx grad_outputs = Inr result \<longrightarrow>
        (\<exists>positions_grad cell_grad.
           result = [positions_grad, cell_grad, None, None, None, None]))"
proof (intro conjI impI)
  assume "2 \<le> length (saved_variables ctx)"
    and "map_of (saved_data ctx) ''structures_start'' = Some (IntVector structures_start)"
  then show "backward ctx [] = Inr [None, None, None, None, None, None]"
    by (auto simp: backward_def read_def toIntVector_def)
next
  assume "backward ctx grad_outputs = Inr result"
  then show "\<exists>positions_grad cell_grad.
      result = [positions_grad, cell_grad, None, None, None, None]"
    by (auto simp: backward_def bindE_eq_Inr Let_def split: if_splits)
qed

theorem backward_result_slots_witness:
  "backward example_context [] = Inr [None, None, None, None, None, None]
   \<and> backward example_context example_adjoints =
       Inr [Some (plain [2, 3] [10, 20, 30, 740, 850, 960]),
            Some (plain [1, 3, 3] [110, 40, 70, 20, 150, 80, 30, 60, 190]),
            None, None, None, None]"
  using backward_result_slots [of example_context "[0]" example_adjoints
      "[Some (plain [2, 3] [10, 20, 30, 740, 850, 960]),
        Some (plain [1, 3, 3] [110, 40, 70, 20, 150, 80, 30, 60, 190]),
        None, None, None, None]"]
    example_backward
  by (simp add: example_context_def)

section \<open>How the loops of the backward operation fail\<close>

lemma foldM_append: "foldM f (xs @ ys) s = bindE (foldM f xs s) (foldM f ys)"
  by (induction xs arbitrary: s) (auto split: sum.splits)

lemma foldM_error_kind:
  assumes "foldM f xs s = Inl e"
    and "\<And>x s e. x \<in> set xs \<Longrightarrow> f x s = Inl e \<Longrightarrow> P e"
  shows "P e"
  using assms
proof (induction xs arbitrary: s)
  case Nil
  then show ?case by simp
next
  case (Cons x xs)
  show ?case
  proof (cases "f x s")
    case (Inl e')
    with Cons.prems show ?thesis by auto
  next
    case (Inr s')
    with Cons.prems have "foldM f xs s' = Inl e" by simp
    then show ?thesis using Cons.prems(2) by (intro Cons.IH [of s']) auto
  qed
qed

lemma bindE_eq_Inl: "bindE x f = Inl e \<longleftrightarrow> x = Inl e \<or> (\<exists>a. x = Inr a \<and> f a = Inl e)"
  by (cases x) simp_all

lemma read_error: "read xs i = Inl e \<Longrightarrow> e = OutOfBounds"
  by (simp add: read_def split: if_splits)

lemma add_at_error: "add_at grad k v = Inl e \<Longrightarrow> e = OutOfBounds"
  by (simp add: add_at_def split: if_splits)

lemma always_assert_error:
  "always_assert condition text = Inl e \<Longrightarrow> e = RuntimeError (''assert failed: '' @ text)"
  by (simp add: always_assert_def split: if_splits)

lemma always_assert_True [simp]: "always_assert True text = Inr ()"
  by (simp add: always_assert_def)

lemma always_assert_False [simp]:
  "always_assert False text = Inl (RuntimeError (''assert failed: '' @ text))"
  by (simp add: always_assert_def)

lemma dot_loop_error:
  "dot_loop forward_grad grad_values forward_start grad_start dot_dimensions = Inl e
     \<Longrightarrow> e = OutOfBounds"
  unfolding dot_loop_def
  by (erule foldM_error_kind) (auto simp: bindE_eq_Inl dest: read_error)

lemma positions_row_error:
  "positions_row structures_start samples_values forward_grad grad_values dot_dimensions
     grad_sample_i positions_grad = Inl e \<Longrightarrow> e = OutOfBounds"
  unfolding positions_row_def Let_def
  by (auto simp: bindE_eq_Inl dest!: read_error
        elim!: foldM_error_kind dest: dot_loop_error add_at_error)

lemma positions_block_error:
  "positions_block structures_start gradient grad_output positions_grad = Inl e
     \<Longrightarrow> e = OutOfBounds \<or> (\<exists>text. e = RuntimeError (''assert failed: '' @ text))"
  unfolding positions_block_def Let_def
  by (auto simp: bindE_eq_Inl dest!: always_assert_error
        elim!: foldM_error_kind dest: positions_row_error)

lemma positions_block_names:
  assumes "names (blk_samples gradient) \<noteq> [''sample'', ''structure'', ''atom'']"
  shows \<open>\<exists>text. text \<in> set [''samples->names().size() == 3'',
               ''samples->names()[0] == "sample"'',
               ''samples->names()[1] == "structure"'',
               ''samples->names()[2] == "atom"''] \<and>
           positions_block structures_start gradient grad_output positions_grad =
             Inl (RuntimeError (''assert failed: '' @ text))\<close>
proof (cases "length (names (blk_samples gradient)) = 3")
  case False
  then show ?thesis by (simp add: positions_block_def Let_def)
next
  case True
  then obtain a b c where abc: "names (blk_samples gradient) = [a, b, c]"
    by (auto simp: length_Suc_conv numeral_3_eq_3)
  with assms show ?thesis
    by (cases "a = ''sample''"; cases "b = ''structure''"; cases "c = ''atom''")
       (simp_all add: positions_block_def Let_def)
qed


lemma upt_split_at: "i < n \<Longrightarrow> [0..<n] = [0..<i] @ i # [Suc i..<n]"
  by (metis le_add1 less_imp_add_positive upt_add_eq_append upt_conv_Cons plus_nat.add_0
        less_or_eq_imp_le)

lemma positions_blocks_split:
  assumes "block_i < n"
  shows "positions_blocks structures_start positions_gradients grad_outputs [0..<n] grad =
     bindE (positions_blocks structures_start positions_gradients grad_outputs
              [0..<block_i] grad) (\<lambda>grad'.
     bindE (positions_block structures_start (positions_gradients ! block_i)
              (grad_outputs ! block_i) grad')
       (positions_blocks structures_start positions_gradients grad_outputs
          [Suc block_i..<n]))"
  unfolding positions_blocks_def upt_split_at [OF assms] foldM_append
  by (simp add: bindE_def split: sum.splits)

lemma positions_blocks_error:
  "positions_blocks structures_start positions_gradients grad_outputs block_ids grad = Inl e
     \<Longrightarrow> e = OutOfBounds \<or> (\<exists>text. e = RuntimeError (''assert failed: '' @ text))"
  unfolding positions_blocks_def
  by (erule foldM_error_kind) (rule positions_block_error)

lemma backward_positions_path:
  assumes "saved_variables ctx = [all_positions, all_cells]"
    and "map_of (saved_data ctx) ''structures_start'' = Some (IntVector structures_start)"
    and "grad_outputs \<noteq> []"
    and "requires_grad all_positions"
  shows "backward ctx grad_outputs =
     bindE (positions_gradient ctx all_positions structures_start
              (map contiguous grad_outputs)) (\<lambda>positions_grad.
     bindE (if requires_grad all_cells
            then cell_gradient ctx all_cells (map contiguous grad_outputs)
            else Inr None) (\<lambda>cell_grad.
     Inr [positions_grad, cell_grad, None, None, None, None]))"
  using assms by (simp add: backward_def read_def toIntVector_def Let_def)

lemma positions_gradient_loop:
  assumes "map_of (saved_data ctx) ''positions_gradients'' = Some (BlockList positions_gradients)"
    and "length positions_gradients = length grad_outputs"
    and "is_contiguous all_positions" and "is_cpu all_positions"
  shows "positions_gradient ctx all_positions structures_start grad_outputs =
     bindE (positions_blocks structures_start positions_gradients grad_outputs
              [0..<length grad_outputs] (replicate (length (data all_positions)) 0))
       (\<lambda>values. Inr (Some ((zeros_like all_positions)\<lparr>data := values\<rparr>)))"
  using assms
  by (simp add: positions_gradient_def toBlockList_def Let_def debug_assert_def zeros_like_def)

text \<open>
  Claim C8. In the positions path of \<^verbatim>\<open>backward\<close>, a block whose saved positions-gradient
  sub-block does not have exactly the sample columns \<^verbatim>\<open>sample\<close>, \<^verbatim>\<open>structure\<close>, \<^verbatim>\<open>atom\<close>, in
  this order, makes the call fail: no gradients are returned. When the blocks before it
  are processed without error, the failure is the \<^verbatim>\<open>always_assert\<close> on the column names
  of that block; otherwise it is an \<^verbatim>\<open>always_assert\<close> of an earlier block, or an earlier
  block has read or written out of bounds.
\<close>

theorem backward_positions_sample_names:
  assumes "saved_variables ctx = [all_positions, all_cells]"
    and "map_of (saved_data ctx) ''structures_start'' = Some (IntVector structures_start)"
    and "map_of (saved_data ctx) ''positions_gradients'' = Some (BlockList positions_gradients)"
    and "length positions_gradients = length grad_outputs"
    and "requires_grad all_positions"
    and "is_contiguous all_positions" and "is_cpu all_positions"
    and "block_i < length grad_outputs"
    and "names (blk_samples (positions_gradients ! block_i)) \<noteq>
           [''sample'', ''structure'', ''atom'']"
  shows \<open>(\<exists>e. backward ctx grad_outputs = Inl e \<and>
            (e = OutOfBounds \<or> (\<exists>text. e = RuntimeError (''assert failed: '' @ text))))
       \<and> (\<forall>grad. positions_blocks structures_start positions_gradients
                    (map contiguous grad_outputs) [0..<block_i]
                    (replicate (length (data all_positions)) 0) = Inr grad \<longrightarrow>
            (\<exists>text. text \<in> set [''samples->names().size() == 3'',
                ''samples->names()[0] == "sample"'',
                ''samples->names()[1] == "structure"'',
                ''samples->names()[2] == "atom"''] \<and>
              backward ctx grad_outputs = Inl (RuntimeError (''assert failed: '' @ text))))\<close>
proof -
  let ?outputs = "map contiguous grad_outputs"
  let ?zeros = "replicate (length (data all_positions)) 0 :: 'a list"
  let ?loop = "positions_blocks structures_start positions_gradients ?outputs"
  from assms(8) have nonempty: "grad_outputs \<noteq> []" by auto
  have run: "backward ctx grad_outputs =
      bindE (bindE (?loop [0..<length grad_outputs] ?zeros)
               (\<lambda>values. Inr (Some ((zeros_like all_positions)\<lparr>data := values\<rparr>))))
        (\<lambda>positions_grad.
           bindE (if requires_grad all_cells then cell_gradient ctx all_cells ?outputs
                  else Inr None)
             (\<lambda>cell_grad. Inr [positions_grad, cell_grad, None, None, None, None]))"
    using backward_positions_path [OF assms(1,2) nonempty assms(5)]
      positions_gradient_loop [OF assms(3) _ assms(6,7), of ?outputs structures_start] assms(4)
    by simp
  have split: "?loop [0..<length grad_outputs] ?zeros =
      bindE (?loop [0..<block_i] ?zeros) (\<lambda>grad'.
      bindE (positions_block structures_start (positions_gradients ! block_i)
               (?outputs ! block_i) grad')
        (?loop [Suc block_i..<length grad_outputs]))"
    using positions_blocks_split [OF assms(8)] .
  have step: \<open>\<exists>text. text \<in> set [''samples->names().size() == 3'',
        ''samples->names()[0] == "sample"'',
        ''samples->names()[1] == "structure"'',
        ''samples->names()[2] == "atom"''] \<and>
      positions_block structures_start (positions_gradients ! block_i)
        (?outputs ! block_i) grad = Inl (RuntimeError (''assert failed: '' @ text))\<close> for grad
    using positions_block_names [OF assms(9)] .
  have fails: "\<exists>e. ?loop [0..<length grad_outputs] ?zeros = Inl e"
  proof (cases "?loop [0..<block_i] ?zeros")
    case (Inl e)
    then show ?thesis by (simp add: split)
  next
    case (Inr grad)
    with step [of grad] show ?thesis by (auto simp: split)
  qed
  then obtain e where e: "?loop [0..<length grad_outputs] ?zeros = Inl e" by blast
  have first: "\<exists>e. backward ctx grad_outputs = Inl e \<and>
      (e = OutOfBounds \<or> (\<exists>text. e = RuntimeError (''assert failed: '' @ text)))"
    using positions_blocks_error [OF e] e by (auto simp: run)
  have second: \<open>\<exists>text. text \<in> set [''samples->names().size() == 3'',
        ''samples->names()[0] == "sample"'',
        ''samples->names()[1] == "structure"'',
        ''samples->names()[2] == "atom"''] \<and>
      backward ctx grad_outputs = Inl (RuntimeError (''assert failed: '' @ text))\<close>
    if "?loop [0..<block_i] ?zeros = Inr grad" for grad
  proof -
    from step [of grad] obtain msg where
      msg: \<open>msg \<in> set [''samples->names().size() == 3'',
        ''samples->names()[0] == "sample"'',
        ''samples->names()[1] == "structure"'',
        ''samples->names()[2] == "atom"'']\<close>
      and "positions_block structures_start (positions_gradients ! block_i)
        (?outputs ! block_i) grad = Inl (RuntimeError (''assert failed: '' @ msg))"
      by blast
    with that have "backward ctx grad_outputs = Inl (RuntimeError (''assert failed: '' @ msg))"
      by (simp add: run split)
    with msg show ?thesis by blast
  qed
  from first second show ?thesis by blast
qed


theorem backward_positions_sample_names_witness:
  \<open>names (blk_samples (Block (plain [3, 3, 1] [1, 2, 3, 4, 5, 6, 7, 8, 9])
            \<lparr>names = [''sample'', ''atom'', ''structure''], count = 3,
             label_values = [0, 0, 0, 0, 1, 0, 1, 1, 0]\<rparr>
            [] example_properties [])) \<noteq> [''sample'', ''structure'', ''atom'']
   \<and> (\<exists>text. text \<in> set [''samples->names().size() == 3'',
                ''samples->names()[0] == "sample"'',
                ''samples->names()[1] == "structure"'',
                ''samples->names()[2] == "atom"''] \<and>
          backward misnamed_context example_adjoints =
            Inl (RuntimeError (''assert failed: '' @ text)))\<close>
  using backward_positions_sample_names [of misnamed_context example_positions example_cells
      "[0]" "[Block (plain [3, 3, 1] [1, 2, 3, 4, 5, 6, 7, 8, 9])
            \<lparr>names = [''sample'', ''atom'', ''structure''], count = 3,
             label_values = [0, 0, 0, 0, 1, 0, 1, 1, 0]\<rparr>
            [] example_properties []]" example_adjoints 0]
  by (simp add: misnamed_context_def example_positions_def example_adjoints_def
        positions_blocks_def)

lemma find_index_None: "find_index needle xs = None \<longleftrightarrow> needle \<notin> set xs"
  by (induction xs) auto

lemma find_index_Some:
  "find_index needle xs = Some i \<Longrightarrow> i < length xs \<and> xs ! i = needle"
  by (induction xs arbitrary: i) (auto split: if_splits)

lemma structure_of_error:
  "structure_of block_samples structure_dimension sample_i = Inl e
     \<Longrightarrow> e = OutOfBounds \<or> e = TorchError ''index out of range''"
  by (auto simp: structure_of_def Let_def split: if_splits dest: read_error)

lemma cell_row_error:
  "cell_row block_samples structure_dimension samples_values forward_grad grad_values
     dot_dimensions grad_sample_i cell_grad = Inl e
     \<Longrightarrow> e = OutOfBounds \<or> e = TorchError ''index out of range''"
  unfolding cell_row_def Let_def
  by (auto simp: bindE_eq_Inl dest!: read_error structure_of_error
        elim!: foldM_error_kind dest: dot_loop_error add_at_error)

lemma cell_block_error:
  "cell_block first_sample_names structure_dimension gradient block_samples grad_output
     cell_grad = Inl e
     \<Longrightarrow> e = OutOfBounds \<or> e = TorchError ''index out of range'' \<or>
         (\<exists>text. e = RuntimeError (''assert failed: '' @ text))"
proof -
  assume failed: "cell_block first_sample_names structure_dimension gradient block_samples
      grad_output cell_grad = Inl e"
  have rows: "e = OutOfBounds \<or> e = TorchError ''index out of range''"
    if "foldM (cell_row block_samples structure_dimension
          (label_values (blk_samples gradient)) (data (blk_values gradient))
          (data grad_output) (dot_dimensions_of grad_output))
        [0..<count (blk_samples gradient)] cell_grad = Inl e"
    using that by (rule foldM_error_kind) (rule cell_row_error)
  from failed show ?thesis
    unfolding cell_block_def Let_def
    by (auto simp: bindE_eq_Inl dest!: always_assert_error rows)
qed

lemma cell_blocks_error:
  "cell_blocks first_sample_names structure_dimension cell_gradients all_samples
     grad_outputs block_ids cell_grad = Inl e
     \<Longrightarrow> e = OutOfBounds \<or> e = TorchError ''index out of range'' \<or>
         (\<exists>text. e = RuntimeError (''assert failed: '' @ text))"
  unfolding cell_blocks_def
  by (erule foldM_error_kind) (rule cell_block_error)

lemma cell_block_names:
  "first_sample_names \<noteq> names block_samples \<Longrightarrow>
   cell_block first_sample_names structure_dimension gradient block_samples grad_output
     cell_grad =
   Inl (RuntimeError ''assert failed: first_sample_names == block_samples->names()'')"
  by (simp add: cell_block_def)

lemma cell_blocks_split:
  assumes "block_i < n"
  shows "cell_blocks first_sample_names structure_dimension cell_gradients all_samples
           grad_outputs [0..<n] grad =
     bindE (cell_blocks first_sample_names structure_dimension cell_gradients all_samples
              grad_outputs [0..<block_i] grad) (\<lambda>grad'.
     bindE (cell_block first_sample_names structure_dimension (cell_gradients ! block_i)
              (all_samples ! block_i) (grad_outputs ! block_i) grad')
       (cell_blocks first_sample_names structure_dimension cell_gradients all_samples
          grad_outputs [Suc block_i..<n]))"
  unfolding cell_blocks_def upt_split_at [OF assms] foldM_append
  by (simp add: bindE_def split: sum.splits)

lemma backward_cell_path:
  assumes "saved_variables ctx = [all_positions, all_cells]"
    and "map_of (saved_data ctx) ''structures_start'' = Some (IntVector structures_start)"
    and "grad_outputs \<noteq> []"
    and "(if requires_grad all_positions
          then positions_gradient ctx all_positions structures_start
                 (map contiguous grad_outputs)
          else Inr None) = Inr positions_grad"
    and "requires_grad all_cells"
  shows "backward ctx grad_outputs =
     bindE (cell_gradient ctx all_cells (map contiguous grad_outputs)) (\<lambda>cell_grad.
     Inr [positions_grad, cell_grad, None, None, None, None])"
  using assms by (simp add: backward_def read_def toIntVector_def Let_def)

lemma cell_gradient_loop:
  assumes "map_of (saved_data ctx) ''cell_gradients'' = Some (BlockList cell_gradients)"
    and "map_of (saved_data ctx) ''samples'' = Some (LabelsList all_samples)"
    and "length cell_gradients = length grad_outputs"
    and "length all_samples = length grad_outputs"
    and "is_contiguous all_cells" and "is_cpu all_cells"
  shows "cell_gradient ctx all_cells grad_outputs =
     (case find_index ''structure'' (names (all_samples ! 0)) of
        None \<Rightarrow> Inl (ValueError missing_structure_message)
      | Some structure_dimension \<Rightarrow>
          bindE (cell_blocks (names (all_samples ! 0)) structure_dimension cell_gradients
                   all_samples grad_outputs [0..<length grad_outputs]
                   (replicate (length (data all_cells)) 0))
            (\<lambda>values. Inr (Some ((zeros_like all_cells)\<lparr>data := values\<rparr>))))"
  using assms
  by (simp add: cell_gradient_def toBlockList_def toLabelsList_def Let_def zeros_like_def
        split: option.splits)

text \<open>
  Claim C7. In the cell path of \<^verbatim>\<open>backward\<close>, reached with at least one adjoint tensor
  after the positions path has returned: when the samples saved for the first block have
  no column \<^verbatim>\<open>structure\<close>, the call fails with the invalid-argument error that says so;
  and when the samples saved for some block have other columns than those of the first
  block, the call fails and returns no gradients: with the \<^verbatim>\<open>always_assert\<close> that compares
  the column names when the blocks before it are processed without error, and otherwise
  with the failure of an earlier block.
\<close>

theorem backward_cell_sample_layout:
  assumes "saved_variables ctx = [all_positions, all_cells]"
    and "map_of (saved_data ctx) ''structures_start'' = Some (IntVector structures_start)"
    and "map_of (saved_data ctx) ''cell_gradients'' = Some (BlockList cell_gradients)"
    and "map_of (saved_data ctx) ''samples'' = Some (LabelsList all_samples)"
    and "length cell_gradients = length grad_outputs"
    and "length all_samples = length grad_outputs"
    and "grad_outputs \<noteq> []"
    and "requires_grad all_cells"
    and "is_contiguous all_cells" and "is_cpu all_cells"
    and "(if requires_grad all_positions
          then positions_gradient ctx all_positions structures_start
                 (map contiguous grad_outputs)
          else Inr None) = Inr positions_grad"
  shows "(''structure'' \<notin> set (names (all_samples ! 0)) \<longrightarrow>
            backward ctx grad_outputs = Inl (ValueError missing_structure_message))
       \<and> (\<forall>structure_dimension block_i.
            find_index ''structure'' (names (all_samples ! 0)) = Some structure_dimension \<longrightarrow>
            block_i < length grad_outputs \<longrightarrow>
            names (all_samples ! block_i) \<noteq> names (all_samples ! 0) \<longrightarrow>
              (\<exists>e. backward ctx grad_outputs = Inl e \<and>
                 (e = OutOfBounds \<or> e = TorchError ''index out of range'' \<or>
                  (\<exists>text. e = RuntimeError (''assert failed: '' @ text))))
              \<and> (\<forall>grad. cell_blocks (names (all_samples ! 0)) structure_dimension
                           cell_gradients all_samples (map contiguous grad_outputs)
                           [0..<block_i] (replicate (length (data all_cells)) 0) = Inr grad \<longrightarrow>
                   backward ctx grad_outputs = Inl (RuntimeError
                     ''assert failed: first_sample_names == block_samples->names()'')))"
proof (intro conjI impI allI)
  let ?outputs = "map contiguous grad_outputs"
  let ?zeros = "replicate (length (data all_cells)) 0 :: 'a list"
  have run: "backward ctx grad_outputs =
      bindE (cell_gradient ctx all_cells ?outputs) (\<lambda>cell_grad.
      Inr [positions_grad, cell_grad, None, None, None, None])"
    using backward_cell_path [OF assms(1,2,7,11,8)] .
  have path: "cell_gradient ctx all_cells ?outputs =
      (case find_index ''structure'' (names (all_samples ! 0)) of
         None \<Rightarrow> Inl (ValueError missing_structure_message)
       | Some structure_dimension \<Rightarrow>
           bindE (cell_blocks (names (all_samples ! 0)) structure_dimension cell_gradients
                    all_samples ?outputs [0..<length ?outputs] ?zeros)
             (\<lambda>values. Inr (Some ((zeros_like all_cells)\<lparr>data := values\<rparr>))))"
    using cell_gradient_loop [OF assms(3,4) _ _ assms(9,10), of ?outputs] assms(5,6) by simp
  {
    assume "''structure'' \<notin> set (names (all_samples ! 0))"
    then have "find_index ''structure'' (names (all_samples ! 0)) = None"
      by (simp add: find_index_None)
    then show "backward ctx grad_outputs = Inl (ValueError missing_structure_message)"
      by (simp add: run path)
  }
  fix structure_dimension block_i
  assume found: "find_index ''structure'' (names (all_samples ! 0)) = Some structure_dimension"
    and block_i: "block_i < length grad_outputs"
    and differs: "names (all_samples ! block_i) \<noteq> names (all_samples ! 0)"
  let ?loop = "cell_blocks (names (all_samples ! 0)) structure_dimension cell_gradients
      all_samples ?outputs"
  have run': "backward ctx grad_outputs =
      bindE (bindE (?loop [0..<length grad_outputs] ?zeros)
               (\<lambda>values. Inr (Some ((zeros_like all_cells)\<lparr>data := values\<rparr>))))
        (\<lambda>cell_grad. Inr [positions_grad, cell_grad, None, None, None, None])"
    using found by (simp add: run path)
  have split: "?loop [0..<length grad_outputs] ?zeros =
      bindE (?loop [0..<block_i] ?zeros) (\<lambda>grad'.
      bindE (cell_block (names (all_samples ! 0)) structure_dimension
               (cell_gradients ! block_i) (all_samples ! block_i) (?outputs ! block_i) grad')
        (?loop [Suc block_i..<length grad_outputs]))"
    using cell_blocks_split [OF block_i] .
  have step: "cell_block (names (all_samples ! 0)) structure_dimension
      (cell_gradients ! block_i) (all_samples ! block_i) (?outputs ! block_i) grad =
      Inl (RuntimeError ''assert failed: first_sample_names == block_samples->names()'')"
    for grad
    using differs by (intro cell_block_names) simp
  have "\<exists>e. ?loop [0..<length grad_outputs] ?zeros = Inl e"
    by (cases "?loop [0..<block_i] ?zeros") (simp_all add: split step)
  then obtain e where e: "?loop [0..<length grad_outputs] ?zeros = Inl e" by blast
  show "\<exists>e. backward ctx grad_outputs = Inl e \<and>
      (e = OutOfBounds \<or> e = TorchError ''index out of range'' \<or>
       (\<exists>text. e = RuntimeError (''assert failed: '' @ text)))"
    using cell_blocks_error [OF e] e by (auto simp: run')
  fix grad
  assume "?loop [0..<block_i] ?zeros = Inr grad"
  then show "backward ctx grad_outputs = Inl (RuntimeError
      ''assert failed: first_sample_names == block_samples->names()'')"
    by (simp add: run' split step)
qed


lemma two_layouts_first_block:
  "cell_blocks
     (names ([example_samples,
        \<lparr>names = [''structure'', ''atom''], count = 2, label_values = [0, 0, 0, 1]\<rparr>] ! 0))
     0 [example_cell_gradient, example_cell_gradient]
     [example_samples,
      \<lparr>names = [''structure'', ''atom''], count = 2, label_values = [0, 0, 0, 1]\<rparr>]
     (map contiguous (example_adjoints @ example_adjoints)) [0..<1]
     (replicate (length (data example_cells)) 0) =
   Inr [110, 40, 70, 20, 150, 80, 30, 60, 190]"
  by code_simp

theorem backward_cell_sample_layout_witness:
  "backward unstructured_context example_adjoints = Inl (ValueError missing_structure_message)
   \<and> backward two_layouts_context (example_adjoints @ example_adjoints) =
       Inl (RuntimeError ''assert failed: first_sample_names == block_samples->names()'')"
proof
  show "backward unstructured_context example_adjoints =
      Inl (ValueError missing_structure_message)"
    using backward_cell_sample_layout [of unstructured_context
        "plain [2, 3] [0, 0, 0, 0, 0, 0]" example_cells "[0]" "[example_cell_gradient]"
        "[\<lparr>names = [''center''], count = 2, label_values = [0, 1]\<rparr>]" example_adjoints None]
    by (simp add: unstructured_context_def plain_def example_cells_def example_adjoints_def)
next
  let ?samples = "[example_samples,
      \<lparr>names = [''structure'', ''atom''], count = 2, label_values = [0, 0, 0, 1]\<rparr>]"
  let ?ctx = two_layouts_context
  let ?adjoints = "example_adjoints @ example_adjoints"
  have variables: "saved_variables ?ctx = [plain [2, 3] [0, 0, 0, 0, 0, 0], example_cells]"
    and starts: "map_of (saved_data ?ctx) ''structures_start'' = Some (IntVector [0])"
    and gradients: "map_of (saved_data ?ctx) ''cell_gradients'' =
        Some (BlockList [example_cell_gradient, example_cell_gradient])"
    and samples: "map_of (saved_data ?ctx) ''samples'' = Some (LabelsList ?samples)"
    by (simp_all add: two_layouts_context_def)
  have lengths: "length [example_cell_gradient, example_cell_gradient] = length ?adjoints"
      "length ?samples = length ?adjoints" "?adjoints \<noteq> []"
    by (simp_all add: example_adjoints_def)
  have cells: "requires_grad example_cells" "is_contiguous example_cells"
      "is_cpu example_cells"
    by (simp_all add: example_cells_def)
  have positions: "(if requires_grad (plain [2, 3] [0, 0, 0, 0, 0, 0])
      then positions_gradient ?ctx (plain [2, 3] [0, 0, 0, 0, 0, 0]) [0]
             (map contiguous ?adjoints)
      else Inr None) = Inr None"
    by (simp add: plain_def)
  have found: "find_index ''structure'' (names (?samples ! 0)) = Some 0"
    by (simp add: example_samples_def)
  have second: "1 < length ?adjoints" by (simp add: example_adjoints_def)
  have differs: "names (?samples ! 1) \<noteq> names (?samples ! 0)"
    by (simp add: example_samples_def)
  note layout = backward_cell_sample_layout [OF variables starts gradients samples lengths
      cells positions, THEN conjunct2, rule_format, OF found second differs,
      THEN conjunct2, rule_format]
  show "backward ?ctx ?adjoints =
      Inl (RuntimeError ''assert failed: first_sample_names == block_samples->names()'')"
    by (rule layout [OF two_layouts_first_block])
qed

section \<open>What the forward operation returns\<close>

lemma mapM_Inr_D: "mapM f xs = Inr ys \<Longrightarrow> list_all2 (\<lambda>x y. f x = Inr y) xs ys"
proof (induction xs arbitrary: ys)
  case Nil
  then show ?case by simp
next
  case (Cons x xs)
  from Cons.prems obtain y zs where "f x = Inr y" "mapM f xs = Inr zs" "ys = y # zs"
    by (auto split: sum.splits)
  with Cons.IH [of zs] show ?case by simp
qed

lemma mapM_Inr_I: "list_all2 (\<lambda>x y. f x = Inr y) xs ys \<Longrightarrow> mapM f xs = Inr ys"
  by (induction rule: list_all2_induct) simp_all

lemma mapM_Inr: "mapM f xs = Inr ys \<longleftrightarrow> list_all2 (\<lambda>x y. f x = Inr y) xs ys"
  using mapM_Inr_D mapM_Inr_I by blast

lemma mapM_upt_Inr:
  "mapM f [0..<n] = Inr ys \<longleftrightarrow> length ys = n \<and> (\<forall>i<n. f i = Inr (ys ! i))"
  unfolding mapM_Inr list_all2_conv_all_nth by auto

lemma block_by_id_Inr:
  "block_by_id tensor i = Inr block \<longleftrightarrow> i < length (blocks tensor) \<and> block = blocks tensor ! i"
  by (auto simp: block_by_id_def)

lemma block_gradient_Inr:
  "block_gradient block parameter = Inr g \<longleftrightarrow> map_of (blk_gradients block) parameter = Some g"
  by (auto simp: block_gradient_def split: option.splits)


lemma extract_gradient_blocks_Inr:
  "extract_gradient_blocks tensor parameter = Inr extracted \<longleftrightarrow>
     length extracted = count (keys tensor) \<and>
     (\<forall>i < count (keys tensor). i < length (blocks tensor) \<and>
        (\<exists>g. map_of (blk_gradients (blocks tensor ! i)) parameter = Some g \<and>
           extracted ! i =
             Block (blk_values g) (blk_samples g) (blk_components g) (blk_properties g) []))"
  unfolding extract_gradient_blocks_def mapM_upt_Inr bindE_eq_Inr block_by_id_Inr
    block_gradient_Inr
  by auto




lemma forward_Inr:
  assumes "forward calculator ctx all_positions all_cells systems forward_gradients log =
             (Inr result, log')"
  obtains options descriptor where
    "gradients options = computed_gradients forward_gradients all_positions all_cells"
    and "log' = log @ [(systems, options)]"
    and "calculator systems options = Inr descriptor"
    and "save_for_backward ctx all_positions all_cells (structures_start_of systems)
           descriptor = Inr (ctx_out result)"
    and "visible_tensor_map (set (gradients options) \<subseteq> set forward_gradients)
           forward_gradients descriptor = Inr (tensor_map_out result)"
proof -
  from assms obtain options afg where
    opts: "forward_options all_positions all_cells systems forward_gradients =
      Inr (options, afg)"
    by (auto simp: forward_def split: sum.splits)
  then have computed:
      "gradients options = computed_gradients forward_gradients all_positions all_cells"
    and afg: "afg \<longleftrightarrow> set (gradients options) \<subseteq> set forward_gradients"
    by (auto simp: forward_options_def bindE_eq_Inr Let_def all_forward_gradients_loop_eq)
  from assms opts have log': "log' = log @ [(systems, options)]"
    and run: "bindE (calculator systems options)
        (forward_finish ctx all_positions all_cells forward_gradients afg
           (structures_start_of systems)) = Inr result"
    by (simp_all add: forward_def Let_def)
  from run obtain descriptor where
    descriptor: "calculator systems options = Inr descriptor"
    and finish: "forward_finish ctx all_positions all_cells forward_gradients afg
        (structures_start_of systems) descriptor = Inr result"
    by (auto simp: bindE_eq_Inr)
  from finish have
    "save_for_backward ctx all_positions all_cells (structures_start_of systems) descriptor =
       Inr (ctx_out result)"
    "visible_tensor_map afg forward_gradients descriptor = Inr (tensor_map_out result)"
    by (auto simp: forward_finish_def bindE_eq_Inr)
  with that computed log' descriptor afg show thesis by simp
qed



section \<open>What the forward operation saves\<close>

lemma standalone_copies_extract:
  "extract_gradient_blocks descriptor parameter = Inr extracted \<longleftrightarrow>
     standalone_copies descriptor parameter extracted"
  unfolding extract_gradient_blocks_Inr standalone_copies_def standalone_copy_def
  by (auto split: option.splits)

lemma emplace_fresh:
  "map_of (saved_data ctx) name = None \<Longrightarrow>
     emplace name v ctx = ctx\<lparr>saved_data := saved_data ctx @ [(name, v)]\<rparr>"
  by (simp add: emplace_def)

lemma save_for_backward_Inr:
  assumes "save_for_backward ctx all_positions all_cells structures_start descriptor = Inr ctx'"
    and "saved_data ctx = []"
  shows "saved_variables ctx' = [all_positions, all_cells]"
    and "\<exists>positions_saved cell_saved.
      saved_data ctx' =
        (''structures_start'', IntVector structures_start) # positions_saved @ cell_saved \<and>
      (if requires_grad all_positions
       then \<exists>extracted. positions_saved = [(''positions_gradients'', BlockList extracted)] \<and>
              standalone_copies descriptor ''positions'' extracted
       else positions_saved = []) \<and>
      (if requires_grad all_cells
       then \<exists>extracted all_samples.
              cell_saved = [(''cell_gradients'', BlockList extracted),
                            (''samples'', LabelsList all_samples)] \<and>
              standalone_copies descriptor ''cell'' extracted \<and>
              length all_samples = count (keys descriptor) \<and>
              (\<forall>i < count (keys descriptor). i < length (blocks descriptor) \<and>
                 all_samples ! i = blk_samples (blocks descriptor ! i))
       else cell_saved = [])"
proof -
  let ?ctx1 = "ctx\<lparr>saved_variables := [all_positions, all_cells],
      saved_data := [(''structures_start'', IntVector structures_start)]\<rparr>"
  have first: "emplace ''structures_start'' (IntVector structures_start)
      (ctx\<lparr>saved_variables := [all_positions, all_cells]\<rparr>) = ?ctx1"
    using assms(2) by (simp add: emplace_def)
  define positions_saved where "positions_saved =
    (if requires_grad all_positions
     then [(''positions_gradients'',
            BlockList (projr (extract_gradient_blocks descriptor ''positions'')))]
     else [])"
  let ?ctx2 = "ctx\<lparr>saved_variables := [all_positions, all_cells],
      saved_data := (''structures_start'', IntVector structures_start) # positions_saved\<rparr>"
  from assms(1) have step2: "(requires_grad all_positions \<longrightarrow>
      (\<exists>extracted. extract_gradient_blocks descriptor ''positions'' = Inr extracted))"
    by (auto simp: save_for_backward_def Let_def bindE_eq_Inr first split: if_splits)
  have positions: "(if requires_grad all_positions
      then bindE (extract_gradient_blocks descriptor ''positions'') (\<lambda>extracted.
           Inr (emplace ''positions_gradients'' (BlockList extracted) ?ctx1))
      else Inr ?ctx1) = Inr ?ctx2"
    using step2 by (auto simp: positions_saved_def emplace_def)
  from assms(1) have rest: "(if requires_grad all_cells
      then bindE (extract_gradient_blocks descriptor ''cell'') (\<lambda>extracted.
           let ctx = emplace ''cell_gradients'' (BlockList extracted) ?ctx2 in
           bindE (mapM (\<lambda>i. bindE (block_by_id descriptor i) (\<lambda>block.
                    Inr (blk_samples block)))
                   [0..<count (keys descriptor)]) (\<lambda>all_samples.
           Inr (emplace ''samples'' (LabelsList all_samples) ctx)))
      else Inr ?ctx2) = Inr ctx'"
    unfolding save_for_backward_def Let_def first positions by simp
  have fresh: "map_of ((''structures_start'', IntVector structures_start) # positions_saved)
      ''cell_gradients'' = None"
    "map_of (((''structures_start'', IntVector structures_start) # positions_saved)
       @ [(''cell_gradients'', v)]) ''samples'' = None" for v :: "'a ivalue"
    by (simp_all add: positions_saved_def)
  define cell_saved where "cell_saved =
    (if requires_grad all_cells
     then [(''cell_gradients'', BlockList (projr (extract_gradient_blocks descriptor ''cell''))),
           (''samples'', LabelsList (projr (mapM (\<lambda>i. bindE (block_by_id descriptor i)
              (\<lambda>block. Inr (blk_samples block))) [0..<count (keys descriptor)])))]
     else [])"
  have ctx': "ctx' = ctx\<lparr>saved_variables := [all_positions, all_cells],
      saved_data := (''structures_start'', IntVector structures_start) # positions_saved
        @ cell_saved\<rparr>"
    and cells: "requires_grad all_cells \<longrightarrow>
      (\<exists>extracted all_samples.
         extract_gradient_blocks descriptor ''cell'' = Inr extracted \<and>
         mapM (\<lambda>i. bindE (block_by_id descriptor i) (\<lambda>block. Inr (blk_samples block)))
           [0..<count (keys descriptor)] = Inr all_samples)"
    using rest fresh
    by (auto simp: bindE_eq_Inr Let_def emplace_def cell_saved_def split: if_splits)
  from ctx' show "saved_variables ctx' = [all_positions, all_cells]" by simp
  have p: "if requires_grad all_positions
       then \<exists>extracted. positions_saved = [(''positions_gradients'', BlockList extracted)] \<and>
              standalone_copies descriptor ''positions'' extracted
       else positions_saved = []"
    using step2 by (auto simp: positions_saved_def standalone_copies_extract [symmetric])
  have c: "if requires_grad all_cells
       then \<exists>extracted all_samples.
              cell_saved = [(''cell_gradients'', BlockList extracted),
                            (''samples'', LabelsList all_samples)] \<and>
              standalone_copies descriptor ''cell'' extracted \<and>
              length all_samples = count (keys descriptor) \<and>
              (\<forall>i < count (keys descriptor). i < length (blocks descriptor) \<and>
                 all_samples ! i = blk_samples (blocks descriptor ! i))
       else cell_saved = []"
  proof (cases "requires_grad all_cells")
    case False
    then show ?thesis by (simp add: cell_saved_def)
  next
    case True
    with cells obtain extracted all_samples where
      e: "extract_gradient_blocks descriptor ''cell'' = Inr extracted"
      and s: "mapM (\<lambda>i. bindE (block_by_id descriptor i) (\<lambda>block. Inr (blk_samples block)))
           [0..<count (keys descriptor)] = Inr all_samples"
      by blast
    from s have "length all_samples = count (keys descriptor)"
      and "\<forall>i < count (keys descriptor). i < length (blocks descriptor) \<and>
                 all_samples ! i = blk_samples (blocks descriptor ! i)"
      by (auto simp: mapM_upt_Inr bindE_eq_Inr block_by_id_Inr)
    moreover from e have "standalone_copies descriptor ''cell'' extracted"
      by (simp add: standalone_copies_extract)
    moreover have "cell_saved = [(''cell_gradients'', BlockList extracted),
                            (''samples'', LabelsList all_samples)]"
      using True e s by (simp add: cell_saved_def)
    ultimately show ?thesis using True by auto
  qed
  from ctx' p c show "\<exists>positions_saved cell_saved.
      saved_data ctx' =
        (''structures_start'', IntVector structures_start) # positions_saved @ cell_saved \<and>
      (if requires_grad all_positions
       then \<exists>extracted. positions_saved = [(''positions_gradients'', BlockList extracted)] \<and>
              standalone_copies descriptor ''positions'' extracted
       else positions_saved = []) \<and>
      (if requires_grad all_cells
       then \<exists>extracted all_samples.
              cell_saved = [(''cell_gradients'', BlockList extracted),
                            (''samples'', LabelsList all_samples)] \<and>
              standalone_copies descriptor ''cell'' extracted \<and>
              length all_samples = count (keys descriptor) \<and>
              (\<forall>i < count (keys descriptor). i < length (blocks descriptor) \<and>
                 all_samples ! i = blk_samples (blocks descriptor ! i))
       else cell_saved = [])"
    by (intro exI [of _ positions_saved] exI [of _ cell_saved]) simp
qed


text \<open>
  Claim C6, as the code has it. After a call of \<^verbatim>\<open>forward\<close> that returns, on a context with
  no saved data yet, the context holds the two inputs and \<^verbatim>\<open>structures_start\<close>; when the
  positions tensor requires gradients (not merely when \<^verbatim>\<open>positions\<close> is among the computed
  channels) it holds a standalone copy of every block's positions-gradient sub-block;
  when the cell tensor requires gradients it holds a standalone copy of every block's
  cell-gradient sub-block and every block's samples; it holds nothing else, and no
  \<^verbatim>\<open>TensorMap\<close>.
\<close>

theorem forward_saved_context:
  assumes "forward calculator ctx all_positions all_cells systems forward_gradients log =
             (Inr result, log')"
    and "saved_data ctx = []"
  shows "\<exists>options descriptor.
           log' = log @ [(systems, options)] \<and>
           calculator systems options = Inr descriptor \<and>
           saved_variables (ctx_out result) = [all_positions, all_cells] \<and>
           (\<exists>positions_saved cell_saved.
              saved_data (ctx_out result) =
                (''structures_start'', IntVector (structures_start_of systems))
                  # positions_saved @ cell_saved \<and>
              (if requires_grad all_positions
               then \<exists>extracted.
                      positions_saved = [(''positions_gradients'', BlockList extracted)] \<and>
                      standalone_copies descriptor ''positions'' extracted
               else positions_saved = []) \<and>
              (if requires_grad all_cells
               then \<exists>extracted all_samples.
                      cell_saved = [(''cell_gradients'', BlockList extracted),
                                    (''samples'', LabelsList all_samples)] \<and>
                      standalone_copies descriptor ''cell'' extracted \<and>
                      length all_samples = count (keys descriptor) \<and>
                      (\<forall>i < count (keys descriptor). i < length (blocks descriptor) \<and>
                         all_samples ! i = blk_samples (blocks descriptor ! i))
               else cell_saved = [])) \<and>
           (\<forall>name tensor. (name, TensorMapValue tensor) \<notin> set (saved_data (ctx_out result)))"
proof -
  from assms(1) obtain options descriptor where
    log': "log' = log @ [(systems, options)]"
    and descriptor: "calculator systems options = Inr descriptor"
    and saved: "save_for_backward ctx all_positions all_cells (structures_start_of systems)
        descriptor = Inr (ctx_out result)"
    by (rule forward_Inr)
  note content = save_for_backward_Inr [OF saved assms(2)]
  from content(2) have "(name, TensorMapValue tensor) \<notin> set (saved_data (ctx_out result))"
    for name tensor
    by (auto split: if_splits)
  with log' descriptor content show ?thesis by blast
qed

lemma detached_forward:
  "forward example_calculator new_context detached_positions detached_cells example_systems
     [''positions'', ''cell''] [] =
   (Inr \<lparr>values_by_block = [plain [2, 1] [5, 7]],
         ctx_out = \<lparr>saved_variables = [detached_positions, detached_cells],
                    saved_data = [(''structures_start'', IntVector [0])]\<rparr>,
         tensor_map_out = example_descriptor\<rparr>,
    [(example_systems, \<lparr>gradients = [''positions'', ''cell''], use_native_system = True\<rparr>)])"
  by code_simp

text \<open>
  The claim as it was stated fails: with \<^verbatim>\<open>positions\<close> and \<^verbatim>\<open>cell\<close> requested for inputs that
  do not require gradients, \<^verbatim>\<open>forward\<close> returns, the calculator computes both gradients,
  and the context holds no copy of the gradient sub-blocks and no samples.
\<close>

theorem forward_saved_context_counterexample:
  "\<not> isl (fst (forward example_calculator new_context detached_positions detached_cells
       example_systems [''positions'', ''cell''] []))
   \<and> map (\<lambda>invocation. gradients (snd invocation))
        (snd (forward example_calculator new_context detached_positions detached_cells
           example_systems [''positions'', ''cell''] [])) = [[''positions'', ''cell'']]
   \<and> map_of (saved_data (ctx_out (projr (fst (forward example_calculator new_context
         detached_positions detached_cells example_systems [''positions'', ''cell''] [])))))
       ''positions_gradients'' = None
   \<and> map_of (saved_data (ctx_out (projr (fst (forward example_calculator new_context
         detached_positions detached_cells example_systems [''positions'', ''cell''] [])))))
       ''cell_gradients'' = None
   \<and> map_of (saved_data (ctx_out (projr (fst (forward example_calculator new_context
         detached_positions detached_cells example_systems [''positions'', ''cell''] [])))))
       ''samples'' = None"
  by (simp add: detached_forward)

theorem forward_saved_context_witness:
  "saved_data new_context = []
   \<and> saved_data example_context =
       [(''structures_start'', IntVector (structures_start_of example_systems)),
        (''positions_gradients'', BlockList [example_positions_gradient]),
        (''cell_gradients'', BlockList [example_cell_gradient]),
        (''samples'', LabelsList [example_samples])]
   \<and> standalone_copies example_descriptor ''positions'' [example_positions_gradient]
   \<and> standalone_copies example_descriptor ''cell'' [example_cell_gradient]"
proof -
  have fresh: "saved_data new_context = []" by (simp add: new_context_def)
  from forward_saved_context [OF example_forward fresh]
  have "\<exists>positions_saved cell_saved.
      saved_data example_context =
        (''structures_start'', IntVector (structures_start_of example_systems))
          # positions_saved @ cell_saved \<and>
      (\<exists>extracted. positions_saved = [(''positions_gradients'', BlockList extracted)] \<and>
         standalone_copies example_descriptor ''positions'' extracted) \<and>
      (\<exists>extracted all_samples.
         cell_saved = [(''cell_gradients'', BlockList extracted),
                       (''samples'', LabelsList all_samples)] \<and>
         standalone_copies example_descriptor ''cell'' extracted)"
    by (auto simp: example_positions_def example_cells_def example_calculator_def)
  then show ?thesis
    using fresh by (auto simp: example_context_def)
qed

section \<open>The gradient with respect to the positions\<close>




















lemma contiguous_simps [simp]:
  "data (contiguous t) = data t" "sizes (contiguous t) = sizes t"
  "flattened_size (contiguous t) = flattened_size t"
  by (simp_all add: contiguous_def flattened_size_def)










section \<open>The gradient with respect to the cell\<close>






















end
